theory Spec2Isabelle
  imports Complex_Main
begin

section \<open>Time, the wrapped operation and exceptions\<close>

text \<open>
  The services are asyncio code around a wrapped remote operation. One logical call is
  modelled as a sequential computation over a \<open>world\<close>: the wall clock read by
  \<open>datetime.now()\<close> (seconds, as a real number; Python's floats are idealised as
  reals throughout) and the number of times the wrapped operation has been invoked so far.
  The wrapped operation is a table: its \<open>i\<close>-th invocation either raises or returns, and
  takes some time.
\<close>

record world =
  now :: real
  calls :: nat

datatype retry_after =
    NoRetryAfter      \<comment> \<open>no response object, no Retry-After header, or an empty one\<close>
  | BadRetryAfter     \<comment> \<open>a header text that \<open>float()\<close> rejects with ValueError\<close>
  | RetryAfter real   \<comment> \<open>the value of \<open>float(header)\<close>\<close>

text \<open>
  Exceptions. The library classes are named after the first \<open>isinstance\<close> branch of
  \<open>classify_error\<close> that an exception reaches; the last three are the exceptions that
  reach no branch, two of them declared by error_handlers.py itself.
\<close>

datatype exn =
    Unauthenticated
  | TooManyRequests retry_after
  | ResourceExhausted
  | ServiceUnavailable
  | DeadlineExceeded
  | GoogleAPIError
  | GoogleAuthError
  | ConnectionError
  | Timeout
  | RequestException
  | CircuitBreakerOpenError
  | RetryExhaustedError "exn option"   \<comment> \<open>\<open>original_error\<close>, None when no attempt ran\<close>
  | OtherException string

type_synonym 'a operation = "nat \<Rightarrow> (exn + 'a) \<times> real"

definition invoke :: "'a operation \<Rightarrow> world \<Rightarrow> (exn + 'a) \<times> world" where
  "invoke op w =
     (case op (calls w) of
        (r, d) \<Rightarrow> (r, w\<lparr>now := now w + d, calls := Suc (calls w)\<rparr>))"

definition sleep :: "real \<Rightarrow> world \<Rightarrow> world" where
  \<comment> \<open>\<open>asyncio.sleep(delay)\<close>: a non-positive delay returns at once\<close>
  "sleep d w = w\<lparr>now := now w + max 0 d\<rparr>"

section \<open>services/error\_handlers.py\<close>

datatype ErrorType =
    AUTHENTICATION | RATE_LIMIT | NETWORK | API_ERROR
  | QUOTA_EXCEEDED | SERVICE_UNAVAILABLE | TIMEOUT | UNKNOWN

datatype RetryStrategy = EXPONENTIAL_BACKOFF | LINEAR_BACKOFF | FIXED_DELAY | NO_RETRY

record RetryConfig =
  max_attempts :: int
  base_delay :: real
  max_delay :: real
  backoff_factor :: real
  jitter :: bool
  retry_strategy :: RetryStrategy
  retryable_errors :: "ErrorType set"

record CircuitBreakerConfig =
  failure_threshold :: int
  recovery_timeout :: real
  success_threshold :: int
  half_open_max_calls :: int

datatype CircuitBreakerState = CLOSED | OPEN | HALF_OPEN

record CircuitBreakerStatus =
  state :: CircuitBreakerState
  failure_count :: int
  success_count :: int
  last_failure_time :: "real option"
  next_attempt_time :: "real option"
  half_open_calls :: int

subsection \<open>ADKErrorClassifier\<close>

fun classify_error :: "exn \<Rightarrow> ErrorType" where
  "classify_error Unauthenticated = AUTHENTICATION"
| "classify_error (TooManyRequests _) = RATE_LIMIT"
| "classify_error ResourceExhausted = QUOTA_EXCEEDED"
| "classify_error ServiceUnavailable = SERVICE_UNAVAILABLE"
| "classify_error DeadlineExceeded = TIMEOUT"
| "classify_error GoogleAPIError = API_ERROR"
| "classify_error GoogleAuthError = AUTHENTICATION"
| "classify_error ConnectionError = NETWORK"
| "classify_error Timeout = NETWORK"
| "classify_error RequestException = NETWORK"
| "classify_error _ = UNKNOWN"

definition is_retryable :: "ErrorType \<Rightarrow> RetryConfig \<Rightarrow> bool" where
  "is_retryable error_type retry_config \<longleftrightarrow> error_type \<in> retryable_errors retry_config"

fun get_retry_delay :: "exn \<Rightarrow> real option" where
  "get_retry_delay (TooManyRequests (RetryAfter v)) = Some v"
| "get_retry_delay _ = None"

subsection \<open>CircuitBreaker\<close>

definition CircuitBreakerStatus_init :: CircuitBreakerStatus where
  "CircuitBreakerStatus_init =
     \<lparr>state = CLOSED, failure_count = 0, success_count = 0,
      last_failure_time = None, next_attempt_time = None, half_open_calls = 0\<rparr>"

definition check_state :: "CircuitBreakerStatus \<Rightarrow> real \<Rightarrow> CircuitBreakerStatus" where
  "check_state st t =
     (if state st = OPEN then
        (case next_attempt_time st of
           Some nt \<Rightarrow> if t \<ge> nt then st\<lparr>state := HALF_OPEN, half_open_calls := 0\<rparr> else st
         | None \<Rightarrow> st)
      else st)"

definition on_success :: "CircuitBreakerConfig \<Rightarrow> CircuitBreakerStatus \<Rightarrow> CircuitBreakerStatus" where
  "on_success cfg st =
     (if state st = HALF_OPEN then
        (let st1 = st\<lparr>success_count := success_count st + 1\<rparr> in
         if success_count st1 \<ge> success_threshold cfg
         then st1\<lparr>state := CLOSED, failure_count := 0, success_count := 0\<rparr>
         else st1)
      else st\<lparr>failure_count := 0\<rparr>)"

definition on_failure ::
  "CircuitBreakerConfig \<Rightarrow> CircuitBreakerStatus \<Rightarrow> real \<Rightarrow> CircuitBreakerStatus" where
  "on_failure cfg st t =
     (let st1 = st\<lparr>failure_count := failure_count st + 1, last_failure_time := Some t\<rparr> in
      if state st1 = HALF_OPEN then
        st1\<lparr>state := OPEN, next_attempt_time := Some (t + recovery_timeout cfg)\<rparr>
      else if state st1 = CLOSED \<and> failure_count st1 \<ge> failure_threshold cfg then
        st1\<lparr>state := OPEN, next_attempt_time := Some (t + recovery_timeout cfg)\<rparr>
      else st1)"

definition call ::
  "CircuitBreakerConfig \<Rightarrow> (world \<Rightarrow> (exn + 'a) \<times> world) \<Rightarrow> CircuitBreakerStatus \<Rightarrow> world
     \<Rightarrow> (exn + 'a) \<times> CircuitBreakerStatus \<times> world" where
  "call cfg func st w =
     (let st1 = check_state st (now w) in
      if state st1 = OPEN then (Inl CircuitBreakerOpenError, st1, w)
      else if state st1 = HALF_OPEN \<and> half_open_calls st1 \<ge> half_open_max_calls cfg
      then (Inl CircuitBreakerOpenError, st1, w)
      else
        (let st2 = (if state st1 = HALF_OPEN
                    then st1\<lparr>half_open_calls := half_open_calls st1 + 1\<rparr> else st1)
         in case func w of
              (Inr result, w') \<Rightarrow> (Inr result, on_success cfg st2, w')
            | (Inl e, w') \<Rightarrow> (Inl e, on_failure cfg st2 (now w'), w')))"

subsection \<open>RetryHandler\<close>

definition calculate_delay :: "RetryConfig \<Rightarrow> nat \<Rightarrow> exn \<Rightarrow> real \<Rightarrow> real" where
  \<comment> \<open>\<open>attempt\<close> is the loop's 0-based index; \<open>rnd\<close> is the value \<open>random.random()\<close>
      would give inside \<open>random.uniform\<close>, in \<open>[0, 1)\<close>\<close>
  "calculate_delay cfg attempt error rnd =
     (let suggested_delay = get_retry_delay error in
      if (case suggested_delay of Some v \<Rightarrow> v \<noteq> 0 | None \<Rightarrow> False)
      then min (the suggested_delay) (max_delay cfg)
      else
        (let delay =
               (case retry_strategy cfg of
                  EXPONENTIAL_BACKOFF \<Rightarrow> base_delay cfg * backoff_factor cfg ^ attempt
                | LINEAR_BACKOFF \<Rightarrow> base_delay cfg * (real attempt + 1)
                | FIXED_DELAY \<Rightarrow> base_delay cfg
                | NO_RETRY \<Rightarrow> base_delay cfg);
             delay' =
               (if jitter cfg
                then (let jitter_range = delay * 0.1
                      in delay + (- jitter_range + (jitter_range - (- jitter_range)) * rnd))
                else delay)
         in max 0 (min delay' (max_delay cfg))))"

function retry_loop ::
  "RetryConfig \<Rightarrow> ('h \<Rightarrow> world \<Rightarrow> (exn + 'a) \<times> 'h \<times> world) \<Rightarrow> (nat \<Rightarrow> real)
     \<Rightarrow> nat \<Rightarrow> exn option \<Rightarrow> 'h \<Rightarrow> world \<Rightarrow> (exn + 'a) \<times> 'h \<times> world" where
  "retry_loop cfg func rnd attempt last_error h w =
     (if int attempt < max_attempts cfg then
        (case func h w of
           (Inr result, h', w') \<Rightarrow> (Inr result, h', w')
         | (Inl error, h', w') \<Rightarrow>
             if int attempt = max_attempts cfg - 1
             then (Inl (RetryExhaustedError (Some error)), h', w')
             else if \<not> is_retryable (classify_error error) cfg
             then (Inl (RetryExhaustedError (Some error)), h', w')
             else retry_loop cfg func rnd (Suc attempt) (Some error) h'
                    (sleep (calculate_delay cfg attempt error (rnd attempt)) w'))
      else (Inl (RetryExhaustedError last_error), h, w))"
  by pat_completeness auto
termination
  by (relation "measure (\<lambda>(cfg, func, rnd, attempt, last_error, h, w).
                   nat (max_attempts cfg - int attempt))") auto

definition execute_with_retry ::
  "RetryConfig \<Rightarrow> ('h \<Rightarrow> world \<Rightarrow> (exn + 'a) \<times> 'h \<times> world) \<Rightarrow> (nat \<Rightarrow> real)
     \<Rightarrow> 'h \<Rightarrow> world \<Rightarrow> (exn + 'a) \<times> 'h \<times> world" where
  "execute_with_retry cfg func rnd h w = retry_loop cfg func rnd 0 None h w"

declare retry_loop.simps [simp del]

subsection \<open>ADKErrorHandler\<close>

record CircuitBreaker =
  cb_config :: CircuitBreakerConfig
  cb_status :: CircuitBreakerStatus

record ADKErrorHandler =
  retry_configs :: "string \<rightharpoonup> RetryConfig"
  circuit_breakers :: "string \<rightharpoonup> CircuitBreaker"
  error_stats :: "string \<rightharpoonup> (ErrorType \<Rightarrow> int)"

definition RetryConfig_default :: RetryConfig where
  "RetryConfig_default =
     \<lparr>max_attempts = 3, base_delay = 1, max_delay = 60, backoff_factor = 2, jitter = True,
      retry_strategy = EXPONENTIAL_BACKOFF,
      retryable_errors = {NETWORK, TIMEOUT, SERVICE_UNAVAILABLE, RATE_LIMIT}\<rparr>"

definition CircuitBreakerConfig_default :: CircuitBreakerConfig where
  "CircuitBreakerConfig_default =
     \<lparr>failure_threshold = 5, recovery_timeout = 60, success_threshold = 3,
      half_open_max_calls = 5\<rparr>"

definition ADKErrorHandler_init :: ADKErrorHandler where
  "ADKErrorHandler_init =
     \<lparr>retry_configs = Map.empty, circuit_breakers = Map.empty, error_stats = Map.empty\<rparr>"

definition configure_service ::
  "ADKErrorHandler \<Rightarrow> string \<Rightarrow> RetryConfig option \<Rightarrow> CircuitBreakerConfig option
     \<Rightarrow> ADKErrorHandler" where
  "configure_service h service_name retry_config circuit_breaker_config =
     (let h1 = h\<lparr>retry_configs := (retry_configs h)
                  (service_name \<mapsto> (case retry_config of Some c \<Rightarrow> c | None \<Rightarrow> RetryConfig_default))\<rparr>;
          h2 = (case circuit_breaker_config of
                  Some c \<Rightarrow> h1\<lparr>circuit_breakers := (circuit_breakers h1)
                              (service_name \<mapsto> \<lparr>cb_config = c, cb_status = CircuitBreakerStatus_init\<rparr>)\<rparr>
                | None \<Rightarrow> h1)
      in h2\<lparr>error_stats := (error_stats h2)(service_name \<mapsto> (\<lambda>_. 0))\<rparr>)"

definition record_error :: "ADKErrorHandler \<Rightarrow> string \<Rightarrow> exn \<Rightarrow> ADKErrorHandler" where
  "record_error h service_name error =
     (let error_type = classify_error error;
          stats = (case error_stats h service_name of Some s \<Rightarrow> s | None \<Rightarrow> (\<lambda>_. 0))
      in h\<lparr>error_stats := (error_stats h)
              (service_name \<mapsto> stats(error_type := stats error_type + 1))\<rparr>)"

definition execution_func ::
  "string \<Rightarrow> (world \<Rightarrow> (exn + 'a) \<times> world) \<Rightarrow> ADKErrorHandler \<Rightarrow> world
     \<Rightarrow> (exn + 'a) \<times> ADKErrorHandler \<times> world" where
  \<comment> \<open>\<open>protected_func\<close> when the service has a circuit breaker, \<open>func\<close> itself otherwise\<close>
  "execution_func service_name func h w =
     (case circuit_breakers h service_name of
        Some circuit_breaker \<Rightarrow>
          (case call (cb_config circuit_breaker) func (cb_status circuit_breaker) w of
             (r, st', w') \<Rightarrow>
               (r, h\<lparr>circuit_breakers := (circuit_breakers h)
                       (service_name \<mapsto> circuit_breaker\<lparr>cb_status := st'\<rparr>)\<rparr>, w'))
      | None \<Rightarrow> (case func w of (r, w') \<Rightarrow> (r, h, w')))"

definition execute_with_protection ::
  "ADKErrorHandler \<Rightarrow> string \<Rightarrow> string \<Rightarrow> (world \<Rightarrow> (exn + 'a) \<times> world) \<Rightarrow> (nat \<Rightarrow> real)
     \<Rightarrow> world \<Rightarrow> (exn + 'a) \<times> ADKErrorHandler \<times> world" where
  "execute_with_protection h service_name operation func rnd w =
     (let h1 = (if retry_configs h service_name = None
                then configure_service h service_name None None else h)
      in case retry_configs h1 service_name of
           None \<Rightarrow> (Inl (OtherException ''KeyError''), h1, w)
         | Some retry_config \<Rightarrow>
             (case execute_with_retry retry_config (execution_func service_name func) rnd h1 w of
                (Inr result, h2, w') \<Rightarrow> (Inr result, h2, w')
              | (Inl error, h2, w') \<Rightarrow> (Inl error, record_error h2 service_name error, w')))"

text \<open>\<open>SERVICE_CONFIGS\<close>, in the order of the dictionary; the entry of vertex\_ai first.\<close>

definition vertex_ai_retry :: RetryConfig where
  "vertex_ai_retry =
     RetryConfig_default\<lparr>max_attempts := 3, base_delay := 2, max_delay := 120,
       backoff_factor := 2,
       retryable_errors := {NETWORK, TIMEOUT, SERVICE_UNAVAILABLE, RATE_LIMIT}\<rparr>"

definition vertex_ai_breaker :: CircuitBreakerConfig where
  "vertex_ai_breaker =
     CircuitBreakerConfig_default\<lparr>failure_threshold := 3, recovery_timeout := 120,
       success_threshold := 2\<rparr>"

definition SERVICE_CONFIGS :: "(string \<times> RetryConfig \<times> CircuitBreakerConfig) list" where
  "SERVICE_CONFIGS =
     [(''vertex_ai'', vertex_ai_retry, vertex_ai_breaker),
      (''vision_api'',
       RetryConfig_default\<lparr>max_attempts := 2, base_delay := 1, max_delay := 30,
         retryable_errors := {NETWORK, TIMEOUT, RATE_LIMIT}\<rparr>,
       CircuitBreakerConfig_default\<lparr>failure_threshold := 5, recovery_timeout := 60\<rparr>),
      (''natural_language'',
       RetryConfig_default\<lparr>max_attempts := 2, base_delay := 1, max_delay := 30,
         retryable_errors := {NETWORK, TIMEOUT, RATE_LIMIT}\<rparr>,
       CircuitBreakerConfig_default\<lparr>failure_threshold := 5, recovery_timeout := 60\<rparr>),
      (''storage'',
       RetryConfig_default\<lparr>max_attempts := 3, base_delay := 0.5, max_delay := 10,
         retryable_errors := {NETWORK, TIMEOUT, SERVICE_UNAVAILABLE}\<rparr>,
       CircuitBreakerConfig_default\<lparr>failure_threshold := 10, recovery_timeout := 30\<rparr>)]"

section \<open>services/monitoring.py\<close>

datatype MetricType =
    REQUEST_COUNT | ERROR_COUNT | RESPONSE_TIME | SUCCESS_RATE
  | RATE_LIMIT_HITS | CIRCUIT_BREAKER_TRIPS

record ServiceMetric =
  sm_service_name :: string
  sm_operation :: string
  metric_type :: MetricType
  metric_value :: real
  timestamp :: real

datatype min_time = Infinity | Finite real   \<comment> \<open>\<open>min_response_time\<close> starts at \<open>float('inf')\<close>\<close>

fun min_with :: "min_time \<Rightarrow> real \<Rightarrow> min_time" where
  "min_with Infinity r = Finite r"
| "min_with (Finite m) r = Finite (min m r)"

record PerformanceStats =
  total_requests :: int
  successful_requests :: int
  failed_requests :: int
  total_response_time :: real
  min_response_time :: min_time
  max_response_time :: real
  rate_limit_hits :: int
  circuit_breaker_trips :: int
  last_request_time :: "real option"

definition PerformanceStats_init :: PerformanceStats where
  "PerformanceStats_init =
     \<lparr>total_requests = 0, successful_requests = 0, failed_requests = 0,
      total_response_time = 0, min_response_time = Infinity, max_response_time = 0,
      rate_limit_hits = 0, circuit_breaker_trips = 0, last_request_time = None\<rparr>"

definition success_rate :: "PerformanceStats \<Rightarrow> real" where
  "success_rate s =
     (if total_requests s = 0 then 0
      else real_of_int (successful_requests s) / real_of_int (total_requests s) * 100)"

definition average_response_time :: "PerformanceStats \<Rightarrow> real" where
  "average_response_time s =
     (if successful_requests s = 0 then 0
      else total_response_time s / real_of_int (successful_requests s))"

definition error_rate :: "PerformanceStats \<Rightarrow> real" where
  "error_rate s =
     (if total_requests s = 0 then 0
      else real_of_int (failed_requests s) / real_of_int (total_requests s) * 100)"

subsection \<open>RequestTracker\<close>

text \<open>The request and response payload dictionaries are carried along opaquely by the
  tracker and are left out of \<open>request_info\<close>.\<close>

record request_info =
  request_id :: string
  ri_service_name :: string
  ri_operation :: string
  start_time :: real
  ri_status :: string
  end_time :: "real option"
  duration :: "real option"
  ri_success :: "bool option"
  ri_error :: "exn option"

record RequestTracker =
  max_history :: nat
  request_history :: "request_info list"

definition deque_append :: "nat \<Rightarrow> 'a list \<Rightarrow> 'a \<Rightarrow> 'a list" where
  \<comment> \<open>\<open>deque(maxlen=n).append\<close>: the oldest element is dropped when the deque is full\<close>
  "deque_append n xs x =
     (if n = 0 then [] else if length xs \<ge> n then drop (length xs + 1 - n) (xs @ [x]) else xs @ [x])"

definition start_request :: "RequestTracker \<Rightarrow> string \<Rightarrow> string \<Rightarrow> string \<Rightarrow> real \<Rightarrow> RequestTracker" where
  "start_request tr rid service_name operation t =
     tr\<lparr>request_history := deque_append (max_history tr) (request_history tr)
          \<lparr>request_id = rid, ri_service_name = service_name, ri_operation = operation,
           start_time = t, ri_status = ''in_progress'', end_time = None, duration = None,
           ri_success = None, ri_error = None\<rparr>\<rparr>"

fun complete_latest :: "string \<Rightarrow> bool \<Rightarrow> exn option \<Rightarrow> real \<Rightarrow> request_info list \<Rightarrow> request_info list" where
  \<comment> \<open>the loop over \<open>reversed(self.request_history)\<close>, on the reversed list\<close>
  "complete_latest rid success error t [] = []"
| "complete_latest rid success error t (r # rs) =
     (if request_id r = rid
      then r\<lparr>end_time := Some t, duration := Some (t - start_time r),
             ri_success := Some success, ri_status := ''completed'',
             ri_error := (if success then ri_error r else error)\<rparr> # rs
      else r # complete_latest rid success error t rs)"

definition complete_request :: "RequestTracker \<Rightarrow> string \<Rightarrow> bool \<Rightarrow> exn option \<Rightarrow> real \<Rightarrow> RequestTracker" where
  "complete_request tr rid success error t =
     tr\<lparr>request_history := rev (complete_latest rid success error t (rev (request_history tr)))\<rparr>"

subsection \<open>ADKMonitor\<close>

text \<open>\<open>performance_stats\<close> is a defaultdict of defaultdicts: a total table that holds a
  fresh \<open>PerformanceStats()\<close> wherever nothing was recorded. The alert callbacks are
  outside the repository; the alerts handed to them are logged in \<open>alerts_triggered\<close>.\<close>

record ADKMonitor =
  performance_stats :: "string \<Rightarrow> string \<Rightarrow> PerformanceStats"
  metrics_history :: "ServiceMetric list"
  request_tracker :: RequestTracker
  alert_thresholds :: "string \<rightharpoonup> (MetricType \<rightharpoonup> real)"
  alerts_triggered :: "(string \<times> MetricType \<times> real \<times> real) list"

definition ADKMonitor_init :: ADKMonitor where
  "ADKMonitor_init =
     \<lparr>performance_stats = (\<lambda>_ _. PerformanceStats_init), metrics_history = [],
      request_tracker = \<lparr>max_history = 1000, request_history = []\<rparr>,
      alert_thresholds = Map.empty, alerts_triggered = []\<rparr>"

definition set_alert_threshold :: "ADKMonitor \<Rightarrow> string \<Rightarrow> MetricType \<Rightarrow> real \<Rightarrow> ADKMonitor" where
  "set_alert_threshold m service_name mt threshold =
     (let thresholds = (case alert_thresholds m service_name of None \<Rightarrow> Map.empty | Some ths \<Rightarrow> ths)
      in m\<lparr>alert_thresholds := (alert_thresholds m)(service_name \<mapsto> thresholds(mt \<mapsto> threshold))\<rparr>)"

definition record_metric :: "ADKMonitor \<Rightarrow> string \<Rightarrow> string \<Rightarrow> MetricType \<Rightarrow> real \<Rightarrow> real \<Rightarrow> ADKMonitor" where
  "record_metric m service_name operation mt v t =
     m\<lparr>metrics_history := metrics_history m @
         [\<lparr>sm_service_name = service_name, sm_operation = operation, metric_type = mt,
           metric_value = v, timestamp = t\<rparr>]\<rparr>"

definition check_alerts :: "ADKMonitor \<Rightarrow> string \<Rightarrow> string \<Rightarrow> ADKMonitor" where
  "check_alerts m service_name operation =
     (case alert_thresholds m service_name of
        None \<Rightarrow> m
      | Some thresholds \<Rightarrow>
          (let stats = performance_stats m service_name operation;
               a1 = (case thresholds ERROR_COUNT of
                       Some th \<Rightarrow> if error_rate stats > th
                                  then [(service_name, ERROR_COUNT, error_rate stats, th)] else []
                     | None \<Rightarrow> []);
               a2 = (case thresholds RESPONSE_TIME of
                       Some th \<Rightarrow> if average_response_time stats > th
                                  then [(service_name, RESPONSE_TIME, average_response_time stats, th)] else []
                     | None \<Rightarrow> []);
               a3 = (case thresholds SUCCESS_RATE of
                       Some th \<Rightarrow> if success_rate stats < th
                                  then [(service_name, SUCCESS_RATE, success_rate stats, th)] else []
                     | None \<Rightarrow> [])
           in m\<lparr>alerts_triggered := alerts_triggered m @ a1 @ a2 @ a3\<rparr>))"

definition update_stats :: "PerformanceStats \<Rightarrow> bool \<Rightarrow> real \<Rightarrow> real \<Rightarrow> PerformanceStats" where
  \<comment> \<open>the block of \<open>record_request_completion\<close> under the monitor's lock\<close>
  "update_stats stats success response_time t =
     (let s1 = stats\<lparr>total_requests := total_requests stats + 1, last_request_time := Some t\<rparr>
      in if success then
           s1\<lparr>successful_requests := successful_requests s1 + 1,
              total_response_time := total_response_time s1 + response_time,
              min_response_time := min_with (min_response_time s1) response_time,
              max_response_time := max (max_response_time s1) response_time\<rparr>
         else s1\<lparr>failed_requests := failed_requests s1 + 1\<rparr>)"

definition record_request_completion ::
  "ADKMonitor \<Rightarrow> string \<Rightarrow> string \<Rightarrow> string \<Rightarrow> bool \<Rightarrow> real \<Rightarrow> exn option \<Rightarrow> real \<Rightarrow> ADKMonitor" where
  "record_request_completion m rid service_name operation success response_time error t =
     (let m1 = m\<lparr>request_tracker := complete_request (request_tracker m) rid success error t\<rparr>;
          m2 = m1\<lparr>performance_stats := (performance_stats m1)
                 (service_name := (performance_stats m1 service_name)
                    (operation := update_stats (performance_stats m1 service_name operation)
                                    success response_time t))\<rparr>;
          m3 = record_metric m2 service_name operation REQUEST_COUNT 1 t;
          m4 = record_metric m3 service_name operation RESPONSE_TIME response_time t;
          m5 = (if \<not> success then record_metric m4 service_name operation ERROR_COUNT 1 t else m4)
      in check_alerts m5 service_name operation)"

definition record_circuit_breaker_trip :: "ADKMonitor \<Rightarrow> string \<Rightarrow> string \<Rightarrow> real \<Rightarrow> ADKMonitor" where
  "record_circuit_breaker_trip m service_name operation t =
     (let stats = performance_stats m service_name operation;
          m1 = m\<lparr>performance_stats := (performance_stats m)
                 (service_name := (performance_stats m service_name)
                    (operation := stats\<lparr>circuit_breaker_trips := circuit_breaker_trips stats + 1\<rparr>))\<rparr>;
          m2 = record_metric m1 service_name operation CIRCUIT_BREAKER_TRIPS 1 t
      in check_alerts m2 service_name operation)"

section \<open>services/caching.py\<close>

datatype CacheStrategy = LRU | TTL | LFU | HYBRID

text \<open>A cache entry; its \<open>metadata\<close> dictionary is carried opaquely and left out.\<close>

record 'v CacheEntry =
  key :: string
  entry_value :: 'v
  created_at :: real
  last_accessed :: real
  access_count :: int
  ttl_seconds :: "real option"
  entry_size_bytes :: int

record CacheConfig =
  max_size_mb :: real
  default_ttl_seconds :: real
  cache_strategy :: CacheStrategy
  cleanup_interval_seconds :: real
  enable_compression :: bool

record CacheStats =
  hits :: int
  misses :: int
  evictions :: int
  size_bytes :: int
  entry_count :: int

text \<open>\<open>self.cache\<close> is an OrderedDict: an association list in insertion order, the
  least recently inserted or promoted entry first.\<close>

record 'v IntelligentCache =
  cache :: "(string \<times> 'v CacheEntry) list"
  cache_stats :: CacheStats

definition CacheConfig_default :: CacheConfig where
  "CacheConfig_default =
     \<lparr>max_size_mb = 100, default_ttl_seconds = 3600, cache_strategy = HYBRID,
      cleanup_interval_seconds = 300, enable_compression = True\<rparr>"

definition IntelligentCache_init :: "'v IntelligentCache" where
  "IntelligentCache_init =
     \<lparr>cache = [],
      cache_stats = \<lparr>hits = 0, misses = 0, evictions = 0, size_bytes = 0, entry_count = 0\<rparr>\<rparr>"

definition is_expired :: "'v CacheEntry \<Rightarrow> real \<Rightarrow> bool" where
  "is_expired e t =
     (case ttl_seconds e of None \<Rightarrow> False | Some ttl \<Rightarrow> t - created_at e > ttl)"

definition touch :: "'v CacheEntry \<Rightarrow> real \<Rightarrow> 'v CacheEntry" where
  "touch e t = e\<lparr>last_accessed := t, access_count := access_count e + 1\<rparr>"

definition od_del :: "string \<Rightarrow> (string \<times> 'e) list \<Rightarrow> (string \<times> 'e) list" where
  \<comment> \<open>\<open>del d[k]\<close>\<close>
  "od_del k d = filter (\<lambda>kv. fst kv \<noteq> k) d"

fun od_set :: "string \<Rightarrow> 'e \<Rightarrow> (string \<times> 'e) list \<Rightarrow> (string \<times> 'e) list" where
  \<comment> \<open>\<open>d[k] = e\<close>: a key already present keeps its position, a new key goes last\<close>
  "od_set k e [] = [(k, e)]"
| "od_set k e (kv # d) = (if fst kv = k then (k, e) # d else kv # od_set k e d)"

definition move_to_end :: "string \<Rightarrow> (string \<times> 'e) list \<Rightarrow> (string \<times> 'e) list" where
  "move_to_end k d =
     (case map_of d k of None \<Rightarrow> d | Some e \<Rightarrow> od_del k d @ [(k, e)])"

definition generate_cache_key :: "string \<Rightarrow> string \<Rightarrow> string \<Rightarrow> string" where
  \<comment> \<open>\<open>digest\<close> stands for the first 16 hex digits of the SHA-256 of the canonical JSON of
      the request: the hash itself is outside the model\<close>
  "generate_cache_key service_name operation digest =
     service_name @ '':'' @ operation @ '':'' @ digest"

definition max_size_bytes :: "CacheConfig \<Rightarrow> real" where
  "max_size_bytes cfg = max_size_mb cfg * 1024 * 1024"

definition cache_get ::
  "CacheConfig \<Rightarrow> real \<Rightarrow> string \<Rightarrow> 'v IntelligentCache \<Rightarrow> 'v option \<times> 'v IntelligentCache" where
  \<comment> \<open>\<open>IntelligentCache.get\<close> at time \<open>t\<close>, for the generated key\<close>
  "cache_get cfg t cache_key c =
     (case map_of (cache c) cache_key of
        Some entry \<Rightarrow>
          if is_expired entry t then
            (None,
             c\<lparr>cache := od_del cache_key (cache c),
               cache_stats := (cache_stats c)
                 \<lparr>evictions := evictions (cache_stats c) + 1,
                  entry_count := entry_count (cache_stats c) - 1,
                  size_bytes := size_bytes (cache_stats c) - entry_size_bytes entry,
                  misses := misses (cache_stats c) + 1\<rparr>\<rparr>)
          else
            (let entry' = touch entry t;
                 d1 = od_set cache_key entry' (cache c);
                 d2 = (if cache_strategy cfg \<in> {LRU, HYBRID} then move_to_end cache_key d1 else d1)
             in (Some (entry_value entry'),
                 c\<lparr>cache := d2,
                   cache_stats := (cache_stats c)\<lparr>hits := hits (cache_stats c) + 1\<rparr>\<rparr>))
      | None \<Rightarrow>
          (None, c\<lparr>cache_stats := (cache_stats c)\<lparr>misses := misses (cache_stats c) + 1\<rparr>\<rparr>))"

fun argmin_by :: "('a \<Rightarrow> 'b::linorder) \<Rightarrow> 'a \<Rightarrow> 'a list \<Rightarrow> 'a" where
  \<comment> \<open>Python's \<open>min(xs, key=f)\<close>: the first element with the least key\<close>
  "argmin_by f best [] = best"
| "argmin_by f best (x # xs) = argmin_by f (if f x < f best then x else best) xs"

fun key_to_remove :: "CacheStrategy \<Rightarrow> real \<Rightarrow> (string \<times> 'v CacheEntry) list \<Rightarrow> string option" where
  "key_to_remove strat t [] = None"
| "key_to_remove strat t (kv # d) =
     (case strat of
        LRU \<Rightarrow> Some (fst kv)
      | LFU \<Rightarrow> Some (fst (argmin_by (\<lambda>x. access_count (snd x)) kv d))
      | TTL \<Rightarrow> Some (fst (argmin_by (\<lambda>x. created_at (snd x)) kv d))
      | HYBRID \<Rightarrow>
          (case filter (\<lambda>x. is_expired (snd x) t) (kv # d) of
             expired # _ \<Rightarrow> Some (fst expired)
           | [] \<Rightarrow> Some (fst kv)))"

lemma od_del_shorter:
  assumes "map_of d k = Some e"
  shows "length (od_del k d) < length d"
proof -
  from assms have "(k, e) \<in> set d" by (rule map_of_SomeD)
  moreover have "\<not> fst (k, e) \<noteq> k" by simp
  ultimately show ?thesis unfolding od_del_def by (rule length_filter_less)
qed

function ensure_cache_space ::
  "CacheConfig \<Rightarrow> real \<Rightarrow> int \<Rightarrow> 'v IntelligentCache \<Rightarrow> 'v IntelligentCache" where
  "ensure_cache_space cfg t required_bytes c =
     (if real_of_int (size_bytes (cache_stats c) + required_bytes) > max_size_bytes cfg
         \<and> cache c \<noteq> []
      then
        (case key_to_remove (cache_strategy cfg) t (cache c) of
           None \<Rightarrow> c
         | Some k \<Rightarrow>
             (case map_of (cache c) k of
                None \<Rightarrow> c
              | Some entry \<Rightarrow>
                  ensure_cache_space cfg t required_bytes
                    (c\<lparr>cache := od_del k (cache c),
                       cache_stats := (cache_stats c)
                         \<lparr>evictions := evictions (cache_stats c) + 1,
                          entry_count := entry_count (cache_stats c) - 1,
                          size_bytes := size_bytes (cache_stats c) - entry_size_bytes entry\<rparr>\<rparr>)))
      else c)"
  by pat_completeness auto
termination
  by (relation "measure (\<lambda>(cfg, t, required_bytes, c). length (cache c))")
     (auto simp: od_del_shorter)

declare ensure_cache_space.simps [simp del]

definition cache_set ::
  "CacheConfig \<Rightarrow> ('v \<Rightarrow> nat option) \<Rightarrow> real \<Rightarrow> string \<Rightarrow> 'v \<Rightarrow> real option
     \<Rightarrow> 'v IntelligentCache \<Rightarrow> bool \<times> 'v IntelligentCache" where
  \<comment> \<open>\<open>IntelligentCache.set\<close> at time \<open>t\<close>, for the generated key. \<open>serialized_len\<close> is the
      length of the pickle or JSON serialisation of a result, None where serialising raises.
      \<open>ttl_seconds or default\<close> takes the default for None and for 0 alike.\<close>
  "cache_set cfg serialized_len t cache_key result ttl c =
     (case serialized_len result of
        None \<Rightarrow> (False, c)
      | Some n \<Rightarrow>
          if real n > max_size_bytes cfg * 0.1 then (False, c)
          else
            (let entry = \<lparr>key = cache_key, entry_value = result, created_at = t,
                          last_accessed = t, access_count = 0,
                          ttl_seconds = Some (case ttl of
                                                None \<Rightarrow> default_ttl_seconds cfg
                                              | Some s \<Rightarrow> if s = 0 then default_ttl_seconds cfg else s),
                          entry_size_bytes = int n\<rparr>;
                 c1 = ensure_cache_space cfg t (int n) c
             in (True,
                 c1\<lparr>cache := od_set cache_key entry (cache c1),
                    cache_stats := (cache_stats c1)
                      \<lparr>entry_count := entry_count (cache_stats c1) + 1,
                       size_bytes := size_bytes (cache_stats c1) + int n\<rparr>\<rparr>)))"

text \<open>A sequence of \<open>set\<close> calls, each with its time, key, result and ttl.\<close>

fun cache_set_seq ::
  "CacheConfig \<Rightarrow> ('v \<Rightarrow> nat option) \<Rightarrow> (real \<times> string \<times> 'v \<times> real option) list
     \<Rightarrow> 'v IntelligentCache \<Rightarrow> 'v IntelligentCache" where
  "cache_set_seq cfg serialized_len [] c = c"
| "cache_set_seq cfg serialized_len ((t, k, v, ttl) # sets) c =
     cache_set_seq cfg serialized_len sets (snd (cache_set cfg serialized_len t k v ttl c))"

subsection \<open>SmartCacheManager\<close>

record ServiceCacheConfig =
  sc_ttl_seconds :: "real option"
  cache_probability :: "real option"

record 'v SmartCacheManager =
  scm_config :: CacheConfig
  scm_cache :: "'v IntelligentCache"
  service_configs :: "string \<Rightarrow> string \<rightharpoonup> ServiceCacheConfig"

definition configure_service_caching :: "string \<Rightarrow> string \<rightharpoonup> ServiceCacheConfig" where
  "configure_service_caching service_name operation =
     (if service_name = ''vertex_ai'' \<and> operation = ''portfolio_optimization''
      then Some \<lparr>sc_ttl_seconds = Some 1800, cache_probability = Some 0.9\<rparr>
      else if service_name = ''vertex_ai'' \<and> operation = ''credit_scoring''
      then Some \<lparr>sc_ttl_seconds = Some 3600, cache_probability = Some 0.8\<rparr>
      else if service_name = ''vision_api'' \<and> operation = ''satellite_analysis''
      then Some \<lparr>sc_ttl_seconds = Some 7200, cache_probability = Some 0.95\<rparr>
      else if service_name = ''natural_language'' \<and> operation = ''sentiment_analysis''
      then Some \<lparr>sc_ttl_seconds = Some 1800, cache_probability = Some 0.7\<rparr>
      else None)"

definition SmartCacheManager_init :: "CacheConfig \<Rightarrow> 'v SmartCacheManager" where
  "SmartCacheManager_init cfg =
     \<lparr>scm_config = cfg, scm_cache = IntelligentCache_init,
      service_configs = configure_service_caching\<rparr>"

definition get_cached_result ::
  "'v SmartCacheManager \<Rightarrow> real \<Rightarrow> real \<Rightarrow> string \<Rightarrow> string \<Rightarrow> string
     \<Rightarrow> 'v option \<times> 'v SmartCacheManager" where
  \<comment> \<open>\<open>rnd\<close> is the value of \<open>random.random()\<close>\<close>
  "get_cached_result cm rnd t service_name operation digest =
     (let cache_probability =
            (case service_configs cm service_name operation of
               None \<Rightarrow> 1
             | Some sc \<Rightarrow> (case cache_probability sc of None \<Rightarrow> 1 | Some p \<Rightarrow> p))
      in if rnd > cache_probability then (None, cm)
         else (case cache_get (scm_config cm) t
                      (generate_cache_key service_name operation digest) (scm_cache cm) of
                 (r, c') \<Rightarrow> (r, cm\<lparr>scm_cache := c'\<rparr>)))"

definition cache_result ::
  "'v SmartCacheManager \<Rightarrow> ('v \<Rightarrow> nat option) \<Rightarrow> real \<Rightarrow> string \<Rightarrow> string \<Rightarrow> string \<Rightarrow> 'v
     \<Rightarrow> bool \<times> 'v SmartCacheManager" where
  "cache_result cm serialized_len t service_name operation digest result =
     (let ttl = (case service_configs cm service_name operation of
                   None \<Rightarrow> default_ttl_seconds (scm_config cm)
                 | Some sc \<Rightarrow> (case sc_ttl_seconds sc of
                                 None \<Rightarrow> default_ttl_seconds (scm_config cm)
                               | Some s \<Rightarrow> s))
      in case cache_set (scm_config cm) serialized_len t
                (generate_cache_key service_name operation digest) result (Some ttl) (scm_cache cm) of
           (ok, c') \<Rightarrow> (ok, cm\<lparr>scm_cache := c'\<rparr>))"

section \<open>services/batching.py\<close>

text \<open>
  The batcher runs on the asyncio event loop. The model keeps, beside the attributes of
  \<open>RequestBatcher\<close> (\<open>pending_requests\<close>, \<open>batch_timers\<close>, \<open>active_batches\<close>), what the
  loop holds for it: the loop's clock, the \<open>_process_batch\<close> tasks created with
  \<open>asyncio.create_task\<close> and not yet started (\<open>spawned\<close>, in creation order), the batches
  suspended inside \<open>_execute_batch\<close> (\<open>in_flight\<close>, each with the time it began), and the
  futures handed to callers (a store from future ids to outcomes, a future absent from it
  being pending). \<open>batch_log\<close> records the groups of the "Processing batch" log lines.
  A timer task is kept with the time its sleep ends; cancelling it removes it.
\<close>

datatype BatchStrategy = TIME_BASED | SIZE_BASED | HYBRID_BATCH

record 'd BatchRequest =
  br_request_id :: string
  br_service_name :: string
  br_operation :: string
  br_data :: 'd
  future :: nat
  br_created_at :: real
  priority :: int

record BatchConfig =
  max_batch_size :: int
  max_wait_time_seconds :: real
  batch_strategy :: BatchStrategy
  enable_priority_batching :: bool
  max_concurrent_batches :: int

record 'd BatchResult =
  res_request_id :: string
  processed_at :: real
  batch_size :: nat
  res_data :: 'd

record 'd RequestBatcher =
  pending_requests :: "string \<rightharpoonup> 'd BatchRequest list"
  batch_timers :: "(string \<times> real) list"
  active_batches :: "string \<rightharpoonup> int"
  loop_time :: real
  spawned :: "string list"
  in_flight :: "(string \<times> 'd BatchRequest list \<times> real) list"
  futures :: "nat \<rightharpoonup> exn + 'd BatchResult"
  next_future :: nat
  batch_log :: "'d BatchRequest list list"

definition BatchConfig_default :: BatchConfig where
  "BatchConfig_default =
     \<lparr>max_batch_size = 10, max_wait_time_seconds = 2, batch_strategy = HYBRID_BATCH,
      enable_priority_batching = True, max_concurrent_batches = 5\<rparr>"

definition RequestBatcher_init :: "real \<Rightarrow> 'd RequestBatcher" where
  "RequestBatcher_init t =
     \<lparr>pending_requests = Map.empty, batch_timers = [], active_batches = Map.empty,
      loop_time = t, spawned = [], in_flight = [], futures = Map.empty, next_future = 0,
      batch_log = []\<rparr>"

definition get_batch_key :: "string \<Rightarrow> string \<Rightarrow> string" where
  "get_batch_key service_name operation = service_name @ '':'' @ operation"

definition py_take :: "int \<Rightarrow> 'a list \<Rightarrow> 'a list" where
  \<comment> \<open>\<open>xs[:n]\<close>\<close>
  "py_take n xs = (if n \<ge> 0 then take (nat n) xs else take (nat (int (length xs) + n)) xs)"

definition py_drop :: "int \<Rightarrow> 'a list \<Rightarrow> 'a list" where
  \<comment> \<open>\<open>xs[n:]\<close>\<close>
  "py_drop n xs = (if n \<ge> 0 then drop (nat n) xs else drop (nat (int (length xs) + n)) xs)"

definition should_process_batch :: "BatchConfig \<Rightarrow> 'd RequestBatcher \<Rightarrow> string \<Rightarrow> bool" where
  "should_process_batch cfg b batch_key =
     (case pending_requests b batch_key of
        None \<Rightarrow> False
      | Some requests \<Rightarrow>
          if (case active_batches b batch_key of Some a \<Rightarrow> a | None \<Rightarrow> 0)
               \<ge> max_concurrent_batches cfg then False
          else if int (length requests) \<ge> max_batch_size cfg then True
          else if batch_strategy cfg \<in> {TIME_BASED, HYBRID_BATCH} then
            (case requests of
               [] \<Rightarrow> False
             | r # rs \<Rightarrow>
                 (let oldest_request = argmin_by br_created_at r rs;
                      age = loop_time b - br_created_at oldest_request
                  in age \<ge> max_wait_time_seconds cfg))
          else False)"

definition add_request ::
  "BatchConfig \<Rightarrow> string \<Rightarrow> string \<Rightarrow> string \<Rightarrow> 'd \<Rightarrow> int \<Rightarrow> 'd RequestBatcher
     \<Rightarrow> nat \<times> 'd RequestBatcher" where
  "add_request cfg rid service_name operation data prio b =
     (let batch_key = get_batch_key service_name operation;
          fut = next_future b;
          batch_request = \<lparr>br_request_id = rid, br_service_name = service_name,
                           br_operation = operation, br_data = data, future = fut,
                           br_created_at = loop_time b, priority = prio\<rparr>;
          b1 = (if pending_requests b batch_key = None
                then b\<lparr>pending_requests := (pending_requests b)(batch_key \<mapsto> []),
                       active_batches := (active_batches b)(batch_key \<mapsto> 0)\<rparr>
                else b);
          queue = (case pending_requests b1 batch_key of Some q \<Rightarrow> q | None \<Rightarrow> []) @ [batch_request];
          queue' = (if enable_priority_batching cfg
                    then sort_key (\<lambda>x. - priority x) queue else queue);
          b2 = b1\<lparr>pending_requests := (pending_requests b1)(batch_key \<mapsto> queue'),
                  next_future := Suc fut\<rparr>
      in if should_process_batch cfg b2 batch_key
         then (fut, b2\<lparr>batch_timers := od_del batch_key (batch_timers b2),
                       spawned := spawned b2 @ [batch_key]\<rparr>)
         else if map_of (batch_timers b2) batch_key = None
         then (fut, b2\<lparr>batch_timers := batch_timers b2 @
                         [(batch_key, loop_time b2 + max 0 (max_wait_time_seconds cfg))]\<rparr>)
         else (fut, b2))"

definition batch_timer :: "string \<Rightarrow> 'd RequestBatcher \<Rightarrow> 'd RequestBatcher" where
  "batch_timer batch_key b =
     (let b1 = (case pending_requests b batch_key of
                  Some (r # rs) \<Rightarrow> b\<lparr>spawned := spawned b @ [batch_key]\<rparr>
                | _ \<Rightarrow> b)
      in b1\<lparr>batch_timers := od_del batch_key (batch_timers b1)\<rparr>)"

definition execute_batch :: "real \<Rightarrow> 'd BatchRequest list \<Rightarrow> (exn + 'd BatchResult) list" where
  "execute_batch t requests =
     map (\<lambda>(i, request).
            Inr \<lparr>res_request_id = br_request_id request,
                 processed_at = t + 0.1 * (real i + 1),
                 batch_size = length requests,
                 res_data = br_data request\<rparr>)
         (enumerate 0 requests)"

definition process_batch_finally :: "BatchConfig \<Rightarrow> string \<Rightarrow> 'd RequestBatcher \<Rightarrow> 'd RequestBatcher" where
  "process_batch_finally cfg batch_key b =
     (let b1 = b\<lparr>active_batches := (active_batches b)
                  (batch_key \<mapsto> (case active_batches b batch_key of Some a \<Rightarrow> a | None \<Rightarrow> 0) - 1)\<rparr>
      in case pending_requests b1 batch_key of
           Some (r # rs) \<Rightarrow>
             if should_process_batch cfg b1 batch_key
             then b1\<lparr>spawned := spawned b1 @ [batch_key]\<rparr> else b1
         | _ \<Rightarrow> b1)"

definition process_batch_begin :: "BatchConfig \<Rightarrow> string \<Rightarrow> 'd RequestBatcher \<Rightarrow> 'd RequestBatcher" where
  "process_batch_begin cfg batch_key b =
     (case pending_requests b batch_key of
        Some (r # rs) \<Rightarrow>
          (let requests_to_process = py_take (max_batch_size cfg) (r # rs);
               b1 = b\<lparr>pending_requests := (pending_requests b)
                        (batch_key \<mapsto> py_drop (max_batch_size cfg) (r # rs)),
                      active_batches := (active_batches b)
                        (batch_key \<mapsto> (case active_batches b batch_key of Some a \<Rightarrow> a | None \<Rightarrow> 0) + 1),
                      batch_log := batch_log b @ [requests_to_process]\<rparr>
           in if requests_to_process = []
              then process_batch_finally cfg batch_key b1
              else b1\<lparr>in_flight := in_flight b1 @ [(batch_key, requests_to_process, loop_time b1)]\<rparr>)
      | _ \<Rightarrow> b)"

definition set_futures ::
  "('d BatchRequest \<times> (exn + 'd BatchResult)) list \<Rightarrow> (nat \<rightharpoonup> exn + 'd BatchResult)
     \<Rightarrow> (nat \<rightharpoonup> exn + 'd BatchResult)" where
  "set_futures pairs fs = fold (\<lambda>(request, result) m. m(future request \<mapsto> result)) pairs fs"

definition process_batch_finish ::
  "BatchConfig \<Rightarrow> string \<times> 'd BatchRequest list \<times> real \<Rightarrow> 'd RequestBatcher \<Rightarrow> 'd RequestBatcher" where
  "process_batch_finish cfg batch b =
     (case batch of
        (batch_key, requests_to_process, started) \<Rightarrow>
          (let results = execute_batch started requests_to_process;
               b1 = b\<lparr>futures := set_futures (zip requests_to_process results) (futures b)\<rparr>
           in process_batch_finally cfg batch_key b1))"

text \<open>
  The event loop, for the tasks of the batcher alone. A spawned \<open>_process_batch\<close> task runs
  first, up to its first suspension (the sleep inside \<open>_execute_batch\<close>; none when the queue is
  empty). With no task ready the loop advances its clock to the earliest timed event: the
  end of a batch in flight (0.1 s per request after it began) or a timer.
\<close>

datatype 'd event = Finish "string \<times> 'd BatchRequest list \<times> real" | Fire string

definition finish_time :: "string \<times> 'd BatchRequest list \<times> real \<Rightarrow> real" where
  "finish_time batch = (case batch of (k, requests, started) \<Rightarrow> started + 0.1 * real (length requests))"

definition timed_events :: "'d RequestBatcher \<Rightarrow> (real \<times> 'd event) list" where
  "timed_events b =
     map (\<lambda>batch. (finish_time batch, Finish batch)) (in_flight b)
     @ map (\<lambda>(k, due). (due, Fire k)) (batch_timers b)"

definition step :: "BatchConfig \<Rightarrow> 'd RequestBatcher \<Rightarrow> 'd RequestBatcher option" where
  "step cfg b =
     (case spawned b of
        k # ks \<Rightarrow> Some (process_batch_begin cfg k (b\<lparr>spawned := ks\<rparr>))
      | [] \<Rightarrow>
          (case timed_events b of
             [] \<Rightarrow> None
           | ev # evs \<Rightarrow>
               (case argmin_by fst ev evs of
                  (t, Finish batch) \<Rightarrow>
                    Some (process_batch_finish cfg batch
                            (b\<lparr>loop_time := max (loop_time b) t,
                               in_flight := remove1 batch (in_flight b)\<rparr>))
                | (t, Fire k) \<Rightarrow>
                    Some (batch_timer k (b\<lparr>loop_time := max (loop_time b) t\<rparr>)))))"

fun run_loop :: "nat \<Rightarrow> BatchConfig \<Rightarrow> 'd RequestBatcher \<Rightarrow> 'd RequestBatcher" where
  "run_loop 0 cfg b = b"
| "run_loop (Suc n) cfg b = (case step cfg b of None \<Rightarrow> b | Some b' \<Rightarrow> run_loop n cfg b')"

text \<open>Requests submitted back to back, before the loop runs any task.\<close>

fun submit_all ::
  "BatchConfig \<Rightarrow> (string \<times> string \<times> string \<times> 'd \<times> int) list \<Rightarrow> 'd RequestBatcher \<Rightarrow> 'd RequestBatcher" where
  "submit_all cfg [] b = b"
| "submit_all cfg ((rid, s, o', d, p) # rs) b = submit_all cfg rs (snd (add_request cfg rid s o' d p b))"


text \<open>
  \<open>await future\<close>: the caller is suspended while the loop runs, until the future is set.
  Nothing bounds that wait (a future that no batch picks up is never set), so the model runs
  the loop on fuel: the result is None when the fuel runs out or when the loop has nothing
  left to run with the future still pending.
\<close>

fun await_future ::
  "nat \<Rightarrow> BatchConfig \<Rightarrow> nat \<Rightarrow> 'd RequestBatcher
     \<Rightarrow> ((exn + 'd BatchResult) \<times> 'd RequestBatcher) option" where
  "await_future 0 cfg fut b =
     (case futures b fut of Some r \<Rightarrow> Some (r, b) | None \<Rightarrow> None)"
| "await_future (Suc m) cfg fut b =
     (case futures b fut of
        Some r \<Rightarrow> Some (r, b)
      | None \<Rightarrow> (case step cfg b of None \<Rightarrow> None | Some b' \<Rightarrow> await_future m cfg fut b'))"

section \<open>services/adk\_service\_manager.py\<close>

text \<open>
  The gateway. A result is either what the wrapped operation returned or the dictionary
  that \<open>RequestBatcher._execute_batch\<close> builds. A service with no entry in
  \<open>service_loggers\<close> gets the module logger, which has no \<open>push_context\<close>: the call raises
  AttributeError before anything else happens.
\<close>

datatype ('a, 'd) gateway_value = Returned 'a | Batched "'d BatchResult"

record ('a, 'd) ADKServiceManager =
  error_handler :: ADKErrorHandler
  monitor :: ADKMonitor
  batch_config :: BatchConfig
  batcher :: "'d RequestBatcher"
  cache_manager :: "('a, 'd) gateway_value SmartCacheManager"
  service_loggers :: "string list"

definition get_default_batch_config :: BatchConfig where
  "get_default_batch_config =
     \<lparr>max_batch_size = 5, max_wait_time_seconds = 1, batch_strategy = HYBRID_BATCH,
      enable_priority_batching = True, max_concurrent_batches = 3\<rparr>"

definition get_default_cache_config :: CacheConfig where
  "get_default_cache_config =
     \<lparr>max_size_mb = 50, default_ttl_seconds = 1800, cache_strategy = HYBRID,
      cleanup_interval_seconds = 300, enable_compression = True\<rparr>"

text \<open>
  \<open>__init__\<close> ends with \<open>_configure_error_handling\<close>, which for each service configures the
  error handler, creates the logger and then calls \<open>monitor.set_alert_threshold\<close> with the
  strings "error\_rate", "response\_time" and "success\_rate" where a \<open>MetricType\<close> is
  expected. \<open>set_alert_threshold\<close> creates the service's dictionary of thresholds and then
  evaluates \<open>metric_type.value\<close>, which a string does not have: the first round of the loop
  raises AttributeError, and so does \<open>__init__\<close>. The model returns the exception raised, if
  any, and the object as it has been built by then.
\<close>

definition set_alert_threshold_str :: "ADKMonitor \<Rightarrow> string \<Rightarrow> exn \<times> ADKMonitor" where
  "set_alert_threshold_str m service_name =
     (OtherException ''AttributeError'',
      (if alert_thresholds m service_name = None
       then m\<lparr>alert_thresholds := (alert_thresholds m)(service_name \<mapsto> Map.empty)\<rparr> else m))"

fun configure_error_handling ::
  "(string \<times> RetryConfig \<times> CircuitBreakerConfig) list \<Rightarrow> ('a, 'd) ADKServiceManager
     \<Rightarrow> exn option \<times> ('a, 'd) ADKServiceManager" where
  "configure_error_handling [] m = (None, m)"
| "configure_error_handling ((service_name, retry, breaker) # rest) m =
     (let m1 = m\<lparr>error_handler := configure_service (error_handler m) service_name
                                     (Some retry) (Some breaker),
                  service_loggers := service_loggers m @ [service_name]\<rparr>
      in case set_alert_threshold_str (monitor m1) service_name of
           (e, mon) \<Rightarrow> (Some e, m1\<lparr>monitor := mon\<rparr>))"

definition ADKServiceManager_init :: "real \<Rightarrow> exn option \<times> ('a, 'd) ADKServiceManager" where
  "ADKServiceManager_init t =
     configure_error_handling SERVICE_CONFIGS
       \<lparr>error_handler = ADKErrorHandler_init,
        monitor = ADKMonitor_init,
        batch_config = get_default_batch_config,
        batcher = RequestBatcher_init t,
        cache_manager = SmartCacheManager_init get_default_cache_config,
        service_loggers = []\<rparr>"

text \<open>
  A manager that serves vertex\_ai: the error handler holds the \<open>SERVICE_CONFIGS\<close> entry of
  the service, the service has its logger and an empty dictionary of alert thresholds, the
  batcher and the cache are fresh. It is the object that \<open>__init__\<close> has built when it raises.
\<close>

definition vertex_ai_manager :: "real \<Rightarrow> ('a, 'd) ADKServiceManager" where
  "vertex_ai_manager t =
     \<lparr>error_handler = configure_service ADKErrorHandler_init ''vertex_ai''
                        (Some vertex_ai_retry) (Some vertex_ai_breaker),
      monitor = ADKMonitor_init\<lparr>alert_thresholds := [''vertex_ai'' \<mapsto> Map.empty]\<rparr>,
      batch_config = get_default_batch_config,
      batcher = RequestBatcher_init t,
      cache_manager = SmartCacheManager_init get_default_cache_config,
      service_loggers = [''vertex_ai'']\<rparr>"

definition mgr_execute_with_protection ::
  "('a, 'd) ADKServiceManager \<Rightarrow> string \<Rightarrow> string \<Rightarrow> (world \<Rightarrow> (exn + 'a) \<times> world)
     \<Rightarrow> (nat \<Rightarrow> real) \<Rightarrow> world \<Rightarrow> (exn + 'a) \<times> ('a, 'd) ADKServiceManager \<times> world" where
  "mgr_execute_with_protection m service_name operation func rnd w =
     (if service_name \<notin> set (service_loggers m)
      then (Inl (OtherException ''AttributeError''), m, w)
      else
        (case execute_with_protection (error_handler m) service_name operation func rnd w of
           (Inr result, h', w') \<Rightarrow> (Inr result, m\<lparr>error_handler := h'\<rparr>, w')
         | (Inl e, h', w') \<Rightarrow>
             (case e of
                CircuitBreakerOpenError \<Rightarrow>
                  (Inl e,
                   m\<lparr>error_handler := h',
                     monitor := record_circuit_breaker_trip (monitor m) service_name operation (now w')\<rparr>,
                   w')
              | _ \<Rightarrow> (Inl e, m\<lparr>error_handler := h'\<rparr>, w'))))"

definition mgr_execute_with_batching_and_caching ::
  "('a, 'd) ADKServiceManager \<Rightarrow> (('a, 'd) gateway_value \<Rightarrow> nat option) \<Rightarrow> nat
     \<Rightarrow> string \<Rightarrow> string \<Rightarrow> string \<Rightarrow> string \<Rightarrow> 'd \<Rightarrow> (world \<Rightarrow> (exn + 'a) \<times> world)
     \<Rightarrow> bool \<Rightarrow> bool \<Rightarrow> int \<Rightarrow> real \<Rightarrow> (nat \<Rightarrow> real) \<Rightarrow> world
     \<Rightarrow> ((exn + ('a, 'd) gateway_value) \<times> ('a, 'd) ADKServiceManager \<times> world) option" where
  "mgr_execute_with_batching_and_caching m serialized_len fuel service_name operation digest rid
       data func enable_batching enable_caching prio rnd_cache rnd w =
     (if service_name \<notin> set (service_loggers m)
      then Some (Inl (OtherException ''AttributeError''), m, w)
      else
        (let (cached_result, m1) =
               (if enable_caching
                then (case get_cached_result (cache_manager m) rnd_cache (now w)
                             service_name operation digest of
                        (r, cm) \<Rightarrow> (r, m\<lparr>cache_manager := cm\<rparr>))
                else (None, m))
         in case cached_result of
              Some v \<Rightarrow> Some (Inr v, m1, w)
            | None \<Rightarrow>
                (let executed =
                       (if enable_batching then
                          (case add_request (batch_config m1) rid service_name operation data prio
                                  ((batcher m1)\<lparr>loop_time := now w\<rparr>) of
                             (fut, b1) \<Rightarrow>
                               (case await_future fuel (batch_config m1) fut b1 of
                                  None \<Rightarrow> None
                                | Some (r, b2) \<Rightarrow>
                                    Some (map_sum id Batched r, m1\<lparr>batcher := b2\<rparr>,
                                          w\<lparr>now := loop_time b2\<rparr>)))
                        else
                          (case mgr_execute_with_protection m1 service_name operation func rnd w of
                             (r, m2, w') \<Rightarrow> Some (map_sum id Returned r, m2, w')))
                 in case executed of
                      None \<Rightarrow> None
                    | Some (Inl e, m2, w') \<Rightarrow> Some (Inl e, m2, w')
                    | Some (Inr result, m2, w') \<Rightarrow>
                        if enable_caching
                        then (case cache_result (cache_manager m2) serialized_len (now w')
                                     service_name operation digest result of
                                (ok, cm) \<Rightarrow> Some (Inr result, m2\<lparr>cache_manager := cm\<rparr>, w'))
                        else Some (Inr result, m2, w'))))"

section \<open>Drivers\<close>

text \<open>A function handed to \<open>RetryHandler\<close> directly, with no handler state behind it.\<close>

definition stateless ::
  "(world \<Rightarrow> (exn + 'a) \<times> world) \<Rightarrow> unit \<Rightarrow> world \<Rightarrow> (exn + 'a) \<times> unit \<times> world" where
  "stateless func h w = (case func w of (r, w') \<Rightarrow> (r, h, w'))"

text \<open>Successive calls through one circuit breaker, each after an idle gap.\<close>

fun calls_seq ::
  "CircuitBreakerConfig \<Rightarrow> 'a operation \<Rightarrow> real list \<Rightarrow> CircuitBreakerStatus \<Rightarrow> world
     \<Rightarrow> (exn + 'a) list \<times> CircuitBreakerStatus \<times> world" where
  "calls_seq cfg op [] st w = ([], st, w)"
| "calls_seq cfg op (gap # gaps) st w =
     (case call cfg (invoke op) st (sleep gap w) of
        (r, st1, w1) \<Rightarrow>
          (case calls_seq cfg op gaps st1 w1 of
             (rs, st2, w2) \<Rightarrow> (r # rs, st2, w2)))"

text \<open>Wrapped operations: one whose fourth and sixth invocations succeed and the others
  fail, one that is never available, one that is never authenticated.\<close>

definition flaky :: "unit operation" where
  "flaky i = (if i \<in> {3, 5} then (Inr (), 0) else (Inl ServiceUnavailable, 0))"

definition unavailable :: "unit operation" where
  "unavailable i = (Inl ServiceUnavailable, 0)"

definition always_unauthenticated :: "unit operation" where
  "always_unauthenticated i = (Inl Unauthenticated, 0)"

text \<open>The \<open>BatchRequest\<close> that \<open>add_request\<close> builds, and a batcher that has seen one batch
  key only.\<close>

definition queued :: "string \<Rightarrow> string \<Rightarrow> real \<Rightarrow> int \<Rightarrow> nat \<Rightarrow> string \<Rightarrow> 'd \<Rightarrow> 'd BatchRequest" where
  "queued s opn t p fut rid d =
     \<lparr>br_request_id = rid, br_service_name = s, br_operation = opn, br_data = d,
      future = fut, br_created_at = t, priority = p\<rparr>"

definition bstate ::
  "string \<Rightarrow> real \<Rightarrow> 'd BatchRequest list \<Rightarrow> (string \<times> real) list \<Rightarrow> int \<Rightarrow> string list
    \<Rightarrow> (string \<times> 'd BatchRequest list \<times> real) list \<Rightarrow> (nat \<rightharpoonup> exn + 'd BatchResult)
    \<Rightarrow> nat \<Rightarrow> 'd BatchRequest list list \<Rightarrow> 'd RequestBatcher" where
  "bstate k t q T a S F U n L =
     \<lparr>pending_requests = [k \<mapsto> q], batch_timers = T, active_batches = [k \<mapsto> a],
      loop_time = t, spawned = S, in_flight = F, futures = U, next_future = n, batch_log = L\<rparr>"

section \<open>Circuit breaker: opening and failing fast\<close>

lemma call_closed_failure:
  assumes "state st = CLOSED" and "op (calls w) = (Inl e, d)"
  shows "call cfg (invoke op) st w =
           (Inl e, on_failure cfg st (now w + d), w\<lparr>now := now w + d, calls := Suc (calls w)\<rparr>)"
  using assms by (simp add: call_def check_state_def invoke_def)

lemma call_open_early:
  assumes "state st = OPEN" and "next_attempt_time st = Some T" and "now w < T"
  shows "call cfg func st w = (Inl CircuitBreakerOpenError, st, w)"
  using assms by (simp add: call_def check_state_def)

lemma closed_breaker_trips:
  assumes "state st = CLOSED"
    and "\<forall>i. isl (fst (op i))"
    and "gaps \<noteq> []"
    and "failure_threshold cfg \<le> failure_count st + int (length gaps)"
  shows "\<exists>k st' w' rs. 1 \<le> k \<and> k \<le> length gaps
           \<and> calls_seq cfg op (take k gaps) st w = (rs, st', w')
           \<and> state st' = OPEN
           \<and> next_attempt_time st' = Some (now w' + recovery_timeout cfg)
           \<and> calls w' = calls w + k"
  using assms
proof (induction gaps arbitrary: st w)
  case Nil
  then show ?case by simp
next
  case (Cons g gs)
  let ?w0 = "sleep g w"
  from Cons.prems(2) obtain e d where opf: "op (calls ?w0) = (Inl e, d)"
    by (metis isl_def prod.collapse)
  let ?st1 = "on_failure cfg st (now ?w0 + d)"
  let ?w1 = "?w0\<lparr>now := now ?w0 + d, calls := Suc (calls ?w0)\<rparr>"
  have c1: "call cfg (invoke op) st ?w0 = (Inl e, ?st1, ?w1)"
    using Cons.prems(1) opf by (rule call_closed_failure)
  show ?case
  proof (cases "failure_threshold cfg \<le> failure_count st + 1")
    case True
    then have "state ?st1 = OPEN" "next_attempt_time ?st1 = Some (now ?w1 + recovery_timeout cfg)"
      using Cons.prems(1) by (simp_all add: on_failure_def)
    moreover have "calls_seq cfg op (take 1 (g # gs)) st w = ([Inl e], ?st1, ?w1)"
      using c1 by simp
    moreover have "calls ?w1 = calls w + 1" by (simp add: sleep_def)
    ultimately show ?thesis
      by (intro exI[of _ 1] exI[of _ ?st1] exI[of _ ?w1] exI[of _ "[Inl e]"]) simp
  next
    case False
    then have st1: "state ?st1 = CLOSED" "failure_count ?st1 = failure_count st + 1"
      using Cons.prems(1) by (simp_all add: on_failure_def)
    have gs: "gs \<noteq> []" using False Cons.prems(4) by auto
    have thr: "failure_threshold cfg \<le> failure_count ?st1 + int (length gs)"
      using Cons.prems(4) st1 by simp
    from Cons.IH[OF st1(1) Cons.prems(2) gs thr, of ?w1]
    obtain k st' w' rs where k: "1 \<le> k" "k \<le> length gs"
      and run: "calls_seq cfg op (take k gs) ?st1 ?w1 = (rs, st', w')"
      and res: "state st' = OPEN" "next_attempt_time st' = Some (now w' + recovery_timeout cfg)"
        "calls w' = calls ?w1 + k"
      by blast
    have "calls_seq cfg op (take (Suc k) (g # gs)) st w = (Inl e # rs, st', w')"
      using c1 run by simp
    moreover have "calls w' = calls w + Suc k" using res(3) by (simp add: sleep_def)
    ultimately show ?thesis using k res(1,2)
      by (intro exI[of _ "Suc k"] exI[of _ st'] exI[of _ w'] exI[of _ "Inl e # rs"]) simp
  qed
qed

lemma open_breaker_fails_fast:
  assumes "state st = OPEN" and "next_attempt_time st = Some T"
    and "now w + sum_list (map (max 0) gaps) < T"
  shows "calls_seq cfg op gaps st w =
           (replicate (length gaps) (Inl CircuitBreakerOpenError), st,
            w\<lparr>now := now w + sum_list (map (max 0) gaps)\<rparr>)"
  using assms
proof (induction gaps arbitrary: w)
  case Nil
  then show ?case by simp
next
  case (Cons g gs)
  have nonneg: "0 \<le> sum_list (map (max 0) gs)"
    by (rule sum_list_nonneg) auto
  have early: "now (sleep g w) < T"
    using Cons.prems(3) nonneg by (simp add: sleep_def)
  have c: "call cfg (invoke op) st (sleep g w) = (Inl CircuitBreakerOpenError, st, sleep g w)"
    using call_open_early[OF Cons.prems(1,2) early] .
  have "now (sleep g w) + sum_list (map (max 0) gs) < T"
    using Cons.prems(3) by (simp add: sleep_def add.assoc)
  from Cons.IH[OF Cons.prems(1,2) this] c show ?case
    by (simp add: sleep_def add.assoc)
qed

text \<open>
  Claim C4. A breaker that is CLOSED and then sees at least \<open>failure_threshold\<close> failed
  calls in a row (at least one) goes OPEN at one of them, with \<open>next_attempt_time\<close> set to
  the time of that failure plus \<open>recovery_timeout\<close>; the wrapped operation was invoked at
  each call up to there. From then on, as long as less than \<open>recovery_timeout\<close> has elapsed
  since the transition, every call raises \<open>CircuitBreakerOpenError\<close>, leaves the breaker as it
  is and does not invoke the wrapped operation (the invocation count stands still).
\<close>

theorem breaker_opens_then_fails_fast:
  assumes "state st = CLOSED"
    and "0 \<le> failure_count st"
    and "\<forall>i. isl (fst (op i))"
    and "gaps \<noteq> []"
    and "failure_threshold cfg \<le> int (length gaps)"
  shows "\<exists>k st' w' rs. 1 \<le> k \<and> k \<le> length gaps
           \<and> calls_seq cfg op (take k gaps) st w = (rs, st', w')
           \<and> state st' = OPEN
           \<and> next_attempt_time st' = Some (now w' + recovery_timeout cfg)
           \<and> calls w' = calls w + k
           \<and> (\<forall>op' later. sum_list (map (max 0) later) < recovery_timeout cfg \<longrightarrow>
                 calls_seq cfg (op' :: 'a operation) later st' w' =
                   (replicate (length later) (Inl CircuitBreakerOpenError), st',
                    w'\<lparr>now := now w' + sum_list (map (max 0) later)\<rparr>))"
proof -
  have "failure_threshold cfg \<le> failure_count st + int (length gaps)"
    using assms(2,5) by simp
  from closed_breaker_trips[OF assms(1,3,4) this, of w]
  obtain k st' w' rs where k: "1 \<le> k" "k \<le> length gaps"
      and run: "calls_seq cfg op (take k gaps) st w = (rs, st', w')"
      and res: "state st' = OPEN" "next_attempt_time st' = Some (now w' + recovery_timeout cfg)"
        "calls w' = calls w + k"
    by blast
  have "\<forall>op' later. sum_list (map (max 0) later) < recovery_timeout cfg \<longrightarrow>
                 calls_seq cfg (op' :: 'a operation) later st' w' =
                   (replicate (length later) (Inl CircuitBreakerOpenError), st',
                    w'\<lparr>now := now w' + sum_list (map (max 0) later)\<rparr>)"
  proof (intro allI impI)
    fix op' :: "'a operation" and later :: "real list"
    assume "sum_list (map (max 0) later) < recovery_timeout cfg"
    then have "now w' + sum_list (map (max 0) later) < now w' + recovery_timeout cfg" by simp
    with res(1,2) show "calls_seq cfg op' later st' w' =
                   (replicate (length later) (Inl CircuitBreakerOpenError), st',
                    w'\<lparr>now := now w' + sum_list (map (max 0) later)\<rparr>)"
      by (rule open_breaker_fails_fast)
  qed
  with k run res show ?thesis by blast
qed



theorem breaker_opens_then_fails_fast_witness:
  "state CircuitBreakerStatus_init = CLOSED
   \<and> 0 \<le> failure_count CircuitBreakerStatus_init
   \<and> (\<forall>i. isl (fst ((Inl ServiceUnavailable :: exn + unit, 0::real))))
   \<and> [0, 0, 0, 0, 0 :: real] \<noteq> []
   \<and> failure_threshold CircuitBreakerConfig_default \<le> int (length [0, 0, 0, 0, 0 :: real])
   \<and> (\<exists>k st' w' rs. 1 \<le> k \<and> k \<le> length [0, 0, 0, 0, 0 :: real]
           \<and> calls_seq CircuitBreakerConfig_default (\<lambda>i. (Inl ServiceUnavailable :: exn + unit, 0))
                 (take k [0, 0, 0, 0, 0]) CircuitBreakerStatus_init \<lparr>now = 0, calls = 0\<rparr> = (rs, st', w')
           \<and> state st' = OPEN
           \<and> next_attempt_time st' = Some (now w' + recovery_timeout CircuitBreakerConfig_default)
           \<and> calls w' = calls \<lparr>now = 0, calls = 0\<rparr> + k
           \<and> (\<forall>op' later. sum_list (map (max 0) later) < recovery_timeout CircuitBreakerConfig_default \<longrightarrow>
                 calls_seq CircuitBreakerConfig_default (op' :: unit operation) later st' w' =
                   (replicate (length later) (Inl CircuitBreakerOpenError), st',
                    w'\<lparr>now := now w' + sum_list (map (max 0) later)\<rparr>)))"
proof -
  have h1: "state CircuitBreakerStatus_init = CLOSED"
    and h2: "0 \<le> failure_count CircuitBreakerStatus_init"
    by (simp_all add: CircuitBreakerStatus_init_def)
  have h3: "\<forall>i. isl (fst ((\<lambda>i. (Inl ServiceUnavailable :: exn + unit, 0::real)) i))" by simp
  have h4: "[0, 0, 0, 0, 0 :: real] \<noteq> []" by simp
  have h5: "failure_threshold CircuitBreakerConfig_default \<le> int (length [0, 0, 0, 0, 0 :: real])"
    by (simp add: CircuitBreakerConfig_default_def)
  from breaker_opens_then_fails_fast[OF h1 h2 h3 h4 h5, of "\<lparr>now = 0, calls = 0\<rparr>"] h1 h2 h4 h5
  show ?thesis by simp
qed


section \<open>Monitor: failed requests and the latency aggregates\<close>

text \<open>
  Claim C10. Recording a completion with \<open>success = False\<close> changes, in the stats of that
  service and operation, only \<open>total_requests\<close>, \<open>failed_requests\<close> and
  \<open>last_request_time\<close>; the stats of every other service or operation stay as they are. In
  particular \<open>total_response_time\<close>, \<open>min_response_time\<close> and \<open>max_response_time\<close> keep
  their values, and so does the reported average response time.
\<close>

theorem failed_request_keeps_latency_aggregates:
  "performance_stats (record_request_completion m rid s opn False rt err t) =
     (performance_stats m)(s := (performance_stats m s)(opn := (performance_stats m s opn)
        \<lparr>total_requests := total_requests (performance_stats m s opn) + 1,
         last_request_time := Some t,
         failed_requests := failed_requests (performance_stats m s opn) + 1\<rparr>))
   \<and> total_response_time (performance_stats (record_request_completion m rid s opn False rt err t) s opn)
       = total_response_time (performance_stats m s opn)
   \<and> min_response_time (performance_stats (record_request_completion m rid s opn False rt err t) s opn)
       = min_response_time (performance_stats m s opn)
   \<and> max_response_time (performance_stats (record_request_completion m rid s opn False rt err t) s opn)
       = max_response_time (performance_stats m s opn)
   \<and> average_response_time (performance_stats (record_request_completion m rid s opn False rt err t) s opn)
       = average_response_time (performance_stats m s opn)"
  by (simp add: record_request_completion_def update_stats_def record_metric_def
        check_alerts_def average_response_time_def Let_def split: option.splits)

section \<open>Retry delays\<close>

lemma calculate_delay_no_jitter:
  assumes "\<not> jitter cfg" and "get_retry_delay error = None"
  shows "calculate_delay cfg attempt error rnd =
           max 0 (min (case retry_strategy cfg of
                         EXPONENTIAL_BACKOFF \<Rightarrow> base_delay cfg * backoff_factor cfg ^ attempt
                       | LINEAR_BACKOFF \<Rightarrow> base_delay cfg * (real attempt + 1)
                       | FIXED_DELAY \<Rightarrow> base_delay cfg
                       | NO_RETRY \<Rightarrow> base_delay cfg)
                      (max_delay cfg))"
  using assms by (simp add: calculate_delay_def)

lemma calculate_delay_nonzero_retry_after:
  assumes "get_retry_delay error = Some v" and "v \<noteq> 0"
  shows "calculate_delay cfg attempt error rnd = min v (max_delay cfg)"
  using assms by (simp add: calculate_delay_def)

lemma calculate_delay_example:
  "map (\<lambda>attempt. calculate_delay
          \<lparr>max_attempts = n, base_delay = 1, max_delay = 10, backoff_factor = 2, jitter = False,
           retry_strategy = EXPONENTIAL_BACKOFF, retryable_errors = errs\<rparr>
          attempt ServiceUnavailable rnd) [0, 1, 2, 3, 4, 5]
   = [1, 2, 4, 8, 10, 10]"
  by (simp add: calculate_delay_def)

text \<open>
  Claim C8. With the configuration of the claim (exponential, \<open>base_delay = 1\<close>,
  \<open>backoff_factor = 2\<close>, \<open>max_delay = 10\<close>, no jitter), a TooManyRequests fault whose
  Retry-After header reads 0 does carry a server value, \<open>v = 0\<close>; the delay used is the
  computed backoff, 1, and not \<open>min v max_delay = 0\<close>: the test \<open>if suggested_delay:\<close> takes a
  suggested delay of 0 for no suggestion. (The three lemmas above are the parts of the
  claim that hold: the formula clamped to \<open>[0, max_delay]\<close>, the sequence 1, 2, 4, 8, 10,
  and a server value other than 0.)
\<close>

theorem retry_after_zero_is_ignored:
  "get_retry_delay (TooManyRequests (RetryAfter 0)) = Some 0
   \<and> calculate_delay
        \<lparr>max_attempts = 3, base_delay = 1, max_delay = 10, backoff_factor = 2, jitter = False,
         retry_strategy = EXPONENTIAL_BACKOFF,
         retryable_errors = {NETWORK, TIMEOUT, SERVICE_UNAVAILABLE, RATE_LIMIT}\<rparr>
        0 (TooManyRequests (RetryAfter 0)) rnd = 1
   \<and> min 0 (max_delay
        \<lparr>max_attempts = 3, base_delay = 1, max_delay = 10, backoff_factor = 2, jitter = False,
         retry_strategy = EXPONENTIAL_BACKOFF,
         retryable_errors = {NETWORK, TIMEOUT, SERVICE_UNAVAILABLE, RATE_LIMIT}\<rparr>) = 0"
  by (simp add: calculate_delay_def)

section \<open>Retries and non-retryable faults\<close>

lemma non_retryable_first_failure:
  assumes "0 < max_attempts cfg" and "func h w = (Inl e, h', w')"
    and "\<not> is_retryable (classify_error e) cfg"
  shows "execute_with_retry cfg func rnd h w = (Inl (RetryExhaustedError (Some e)), h', w')"
  using assms by (simp add: execute_with_retry_def retry_loop.simps[of _ _ _ 0])

text \<open>
  Claim C3. With the default retry configuration, an operation whose first attempt raises
  an Authentication fault (\<open>Unauthenticated\<close> or \<open>GoogleAuthError\<close>) is invoked exactly once
  and nothing is slept, but what reaches the caller is \<open>RetryExhaustedError\<close> carrying the
  fault as \<open>original_error\<close>, not the Authentication fault itself. (The lemma above is the
  general form: any first failure outside the retryable set ends the call so.)
\<close>

theorem authentication_fault_is_wrapped:
  "execute_with_retry RetryConfig_default (stateless (invoke (\<lambda>i. (Inl Unauthenticated, d)))) rnd () w
     = (Inl (RetryExhaustedError (Some Unauthenticated)), (),
        w\<lparr>now := now w + d, calls := Suc (calls w)\<rparr>)
   \<and> execute_with_retry RetryConfig_default (stateless (invoke (\<lambda>i. (Inl GoogleAuthError, d)))) rnd () w
     = (Inl (RetryExhaustedError (Some GoogleAuthError)), (),
        w\<lparr>now := now w + d, calls := Suc (calls w)\<rparr>)"
  by (simp add: execute_with_retry_def retry_loop.simps[of _ _ _ 0] stateless_def invoke_def
        RetryConfig_default_def is_retryable_def)

section \<open>Circuit breaker: probes in HALF\_OPEN\<close>

lemma half_open_failure_reopens:
  assumes "state st = HALF_OPEN" and "half_open_calls st < half_open_max_calls cfg"
    and "func w = (Inl e, w')"
  shows "call cfg func st w =
           (Inl e,
            st\<lparr>half_open_calls := half_open_calls st + 1,
               failure_count := failure_count st + 1, last_failure_time := Some (now w'),
               state := OPEN, next_attempt_time := Some (now w' + recovery_timeout cfg)\<rparr>,
            w')"
  using assms by (simp add: call_def check_state_def on_failure_def)

text \<open>
  Claim C5. On the vertex\_ai breaker (\<open>success_threshold = 2\<close>): three failures open it;
  after the recovery timeout a probe succeeds, the next probe fails and the breaker goes
  back to OPEN, with \<open>next_attempt_time\<close> reset to the time of the failure plus 120 and
  \<open>success_count\<close> still 1; after another recovery timeout a single probe success closes the
  breaker. The two successes are separated by a HALF\_OPEN failure and are counted together:
  \<open>_on_failure\<close> does not reset \<open>success_count\<close>. (The lemma above is the part of the claim
  that holds: a probe failure reopens the breaker and resets \<open>next_attempt_time\<close>.)
\<close>

theorem separated_probe_successes_close_breaker:
  "calls_seq vertex_ai_breaker flaky [0, 0, 0, 120, 0] CircuitBreakerStatus_init \<lparr>now = 0, calls = 0\<rparr>
     = ([Inl ServiceUnavailable, Inl ServiceUnavailable, Inl ServiceUnavailable, Inr (), Inl ServiceUnavailable],
        \<lparr>state = OPEN, failure_count = 4, success_count = 1, last_failure_time = Some 120,
         next_attempt_time = Some 240, half_open_calls = 2\<rparr>,
        \<lparr>now = 120, calls = 5\<rparr>)
   \<and> calls_seq vertex_ai_breaker flaky [0, 0, 0, 120, 0, 120] CircuitBreakerStatus_init \<lparr>now = 0, calls = 0\<rparr>
     = ([Inl ServiceUnavailable, Inl ServiceUnavailable, Inl ServiceUnavailable, Inr (), Inl ServiceUnavailable, Inr ()],
        \<lparr>state = CLOSED, failure_count = 0, success_count = 0, last_failure_time = Some 120,
         next_attempt_time = Some 240, half_open_calls = 1\<rparr>,
        \<lparr>now = 240, calls = 6\<rparr>)"
  by (simp add: vertex_ai_breaker_def CircuitBreakerConfig_default_def flaky_def
        CircuitBreakerStatus_init_def call_def check_state_def
        on_success_def on_failure_def invoke_def sleep_def Let_def)

section \<open>Cache: time to live\<close>

lemma map_of_od_set: "map_of (od_set k e d) k = Some e"
  by (induction d) auto

lemma map_of_od_del: "map_of (od_del k d) k = None"
  by (induction d) (auto simp: od_del_def)

lemma set_keeps_nonzero_ttl:
  assumes "serialized_len v = Some n" and "real n \<le> max_size_bytes cfg * 0.1" and "T \<noteq> 0"
  shows "map_of (cache (snd (cache_set cfg serialized_len t0 k v (Some T) c))) k
           = Some \<lparr>key = k, entry_value = v, created_at = t0, last_accessed = t0,
                   access_count = 0, ttl_seconds = Some T, entry_size_bytes = int n\<rparr>"
  using assms by (simp add: cache_set_def Let_def map_of_od_set)

lemma expired_entry_is_a_miss:
  assumes "map_of (cache c) k = Some e" and "ttl_seconds e = Some T" and "t - created_at e > T"
  shows "cache_get cfg t k c =
           (None,
            c\<lparr>cache := od_del k (cache c),
              cache_stats := (cache_stats c)
                \<lparr>evictions := evictions (cache_stats c) + 1,
                 entry_count := entry_count (cache_stats c) - 1,
                 size_bytes := size_bytes (cache_stats c) - entry_size_bytes e,
                 misses := misses (cache_stats c) + 1\<rparr>\<rparr>)"
  using assms by (simp add: cache_get_def is_expired_def)

lemma read_keeps_age_and_ttl:
  assumes "map_of (cache c) k = Some e" and "\<not> is_expired e t"
  shows "fst (cache_get cfg t k c) = Some (entry_value e)"
    and "map_of (cache (snd (cache_get cfg t k c))) k
           = Some (e\<lparr>last_accessed := t, access_count := access_count e + 1\<rparr>)"
  using assms
  by (auto simp add: cache_get_def touch_def Let_def map_of_od_set move_to_end_def
        map_of_od_del map_add_def)


text \<open>
  Claim C6. \<open>set\<close> with \<open>ttl_seconds = 0\<close> at time 0 stores the entry with the default
  time to live (3600 s), because \<open>ttl_seconds or default\<close> takes 0 for None; \<open>get\<close> at time 1,
  when the elapsed time exceeds the requested ttl of 0, returns the entry. (The lemmas above
  are the part of the claim that holds: a ttl other than 0 is stored as given, a read
  changes neither the creation time nor the ttl, and a read of an entry older than its ttl
  evicts it and counts as a miss.)
\<close>

theorem zero_ttl_entry_outlives_its_ttl:
  "cache_set CacheConfig_default (\<lambda>_. Some 10) 0 ''k'' v (Some 0) IntelligentCache_init
     = (True,
        \<lparr>cache = [(''k'', \<lparr>key = ''k'', entry_value = v, created_at = 0, last_accessed = 0,
                          access_count = 0, ttl_seconds = Some 3600, entry_size_bytes = 10\<rparr>)],
         cache_stats = \<lparr>hits = 0, misses = 0, evictions = 0, size_bytes = 10, entry_count = 1\<rparr>\<rparr>)
   \<and> fst (cache_get CacheConfig_default 1 ''k''
         (snd (cache_set CacheConfig_default (\<lambda>_. Some 10) 0 ''k'' v (Some 0) IntelligentCache_init)))
       = Some v"
  by (simp add: cache_set_def cache_get_def CacheConfig_default_def IntelligentCache_init_def
        max_size_bytes_def ensure_cache_space.simps is_expired_def touch_def move_to_end_def
        od_del_def Let_def)

section \<open>Cache: tracked size\<close>

text \<open>
  Claim C7. With \<open>max_size_mb = 1\<close> (1048576 bytes), twelve accepted \<open>set\<close> calls, each of
  an entry of at most 10% of the maximum: ten of 100000 bytes and one of 48576 bytes under
  the key A, then one of 100000 bytes under the key B. Overwriting a key adds the new size
  without releasing the old one, so the tracked size reaches 1048576 with a single entry
  of 48576 bytes in the cache; the last \<open>set\<close> evicts that entry, the cache is empty with
  1000000 bytes still tracked, and the insert leaves \<open>size_bytes = 1100000\<close>, above the
  maximum.
\<close>

theorem overwritten_keys_inflate_tracked_size:
  "cache_stats (cache_set_seq (CacheConfig_default\<lparr>max_size_mb := 1\<rparr>) Some
     [(0, ''A'', 100000, None), (0, ''A'', 100000, None), (0, ''A'', 100000, None), (0, ''A'', 100000, None), (0, ''A'', 100000, None), (0, ''A'', 100000, None), (0, ''A'', 100000, None), (0, ''A'', 100000, None), (0, ''A'', 100000, None), (0, ''A'', 100000, None), (0, ''A'', 48576, None), (0, ''B'', 100000, None)]
     IntelligentCache_init)
     = \<lparr>hits = 0, misses = 0, evictions = 1, size_bytes = 1100000, entry_count = 11\<rparr>
   \<and> \<not> real_of_int 1100000 \<le> max_size_bytes (CacheConfig_default\<lparr>max_size_mb := 1\<rparr>)
   \<and> real (100000 :: nat) \<le> max_size_bytes (CacheConfig_default\<lparr>max_size_mb := 1\<rparr>) * 0.1
   \<and> real (48576 :: nat) \<le> max_size_bytes (CacheConfig_default\<lparr>max_size_mb := 1\<rparr>) * 0.1"
  by (simp add: cache_set_def CacheConfig_default_def IntelligentCache_init_def
        max_size_bytes_def ensure_cache_space.simps od_del_def Let_def)

section \<open>Batcher: five requests, batches of three\<close>

lemma run_loop_quiescent: "step cfg b = None \<Longrightarrow> run_loop n cfg b = b"
  by (cases n) simp_all

lemma run_loop_add: "run_loop (m + n) cfg b = run_loop n cfg (run_loop m cfg b)"
proof (induction m arbitrary: b)
  case 0
  then show ?case by simp
next
  case (Suc m)
  show ?case
  proof (cases "step cfg b")
    case None
    then show ?thesis by (simp add: run_loop_quiescent)
  next
    case (Some b')
    then show ?thesis using Suc.IH[of b'] by simp
  qed
qed

lemma run_loop_step: "step cfg b = Some b' \<Longrightarrow> run_loop (Suc n) cfg b = run_loop n cfg b'"
  by simp

lemma add_request_first:
  "add_request cfg rid s opn d p (RequestBatcher_init t) =
     (0, bstate (get_batch_key s opn) t [queued s opn t p 0 rid d]
           (if should_process_batch cfg (bstate (get_batch_key s opn) t [queued s opn t p 0 rid d] [] 0 [] [] Map.empty 1 []) (get_batch_key s opn)
            then [] else [(get_batch_key s opn, t + max 0 (max_wait_time_seconds cfg))])
           0
           (if should_process_batch cfg (bstate (get_batch_key s opn) t [queued s opn t p 0 rid d] [] 0 [] [] Map.empty 1 []) (get_batch_key s opn)
            then [get_batch_key s opn] else [])
           [] Map.empty 1 [])"
  by (simp add: add_request_def RequestBatcher_init_def bstate_def queued_def Let_def od_del_def)

lemma add_request_next:
  assumes "\<forall>r \<in> set q. priority r = p"
  shows "add_request cfg rid s opn d p (bstate (get_batch_key s opn) t q T 0 S [] U n L) =
     (n, bstate (get_batch_key s opn) t (q @ [queued s opn t p n rid d])
           (if should_process_batch cfg (bstate (get_batch_key s opn) t (q @ [queued s opn t p n rid d]) T 0 S [] U (Suc n) L) (get_batch_key s opn)
            then od_del (get_batch_key s opn) T
            else if map_of T (get_batch_key s opn) = None
                 then T @ [(get_batch_key s opn, t + max 0 (max_wait_time_seconds cfg))] else T)
           0
           (if should_process_batch cfg (bstate (get_batch_key s opn) t (q @ [queued s opn t p n rid d]) T 0 S [] U (Suc n) L) (get_batch_key s opn)
            then S @ [get_batch_key s opn] else S)
           [] U (Suc n) L)"
proof -
  let ?xs = "q @ [queued s opn t p n rid d]"
  have "\<forall>y \<in> set (map (\<lambda>x. - priority x) ?xs). y = - p"
    using assms by (auto simp: queued_def)
  then have "replicate (length (map (\<lambda>x. - priority x) ?xs)) (- p) = map (\<lambda>x. - priority x) ?xs"
    by (rule replicate_length_same)
  then have "sorted (map (\<lambda>x. - priority x) ?xs)"
    by (metis sorted_replicate)
  then have "sort_key (\<lambda>x. - priority x) ?xs = ?xs"
    by (rule sort_key_id_if_sorted)
  then show ?thesis
    by (simp add: add_request_def bstate_def Let_def queued_def)
qed


lemma queued_sel [simp]:
  "priority (queued s opn t p fut rid d) = p"
  "br_created_at (queued s opn t p fut rid d) = t"
  "future (queued s opn t p fut rid d) = fut"
  "br_request_id (queued s opn t p fut rid d) = rid"
  "br_data (queued s opn t p fut rid d) = d"
  by (simp_all add: queued_def)

lemma argmin_by_const:
  assumes "f best = c" and "\<forall>x \<in> set xs. f x = c"
  shows "f (argmin_by f best xs) = c"
  using assms by (induction xs arbitrary: best) auto



lemma should_process_bstate:
  assumes "a < max_concurrent_batches cfg" and "q \<noteq> []" and "\<forall>x \<in> set q. br_created_at x = t"
  shows "should_process_batch cfg (bstate k t q T a S F U n L) k \<longleftrightarrow>
           max_batch_size cfg \<le> int (length q)
           \<or> (batch_strategy cfg \<in> {TIME_BASED, HYBRID_BATCH} \<and> max_wait_time_seconds cfg \<le> 0)"
proof -
  from assms(2) obtain r rs where q: "q = r # rs" by (cases q) auto
  have "br_created_at r = t" and "\<forall>x \<in> set rs. br_created_at x = t"
    using assms(3) q by simp_all
  then have am: "br_created_at (argmin_by br_created_at r rs) = t"
    by (rule argmin_by_const[where f = br_created_at])
  have na: "\<not> max_concurrent_batches cfg \<le> a" using assms(1) by simp
  show ?thesis
    unfolding should_process_batch_def bstate_def q
    by (simp add: na am Let_def del: argmin_by.simps)
qed


lemma submit_five:
  assumes mbs: "max_batch_size cfg = 3" and mcb: "1 \<le> max_concurrent_batches cfg"
  shows "submit_all cfg
           [(rid1, s, opn, d1, p), (rid2, s, opn, d2, p), (rid3, s, opn, d3, p),
            (rid4, s, opn, d4, p), (rid5, s, opn, d5, p)] (RequestBatcher_init t)
         = bstate (get_batch_key s opn) t
             [queued s opn t p 0 rid1 d1, queued s opn t p 1 rid2 d2, queued s opn t p 2 rid3 d3,
              queued s opn t p 3 rid4 d4, queued s opn t p 4 rid5 d5]
             [] 0
             (if batch_strategy cfg \<in> {TIME_BASED, HYBRID_BATCH} \<and> max_wait_time_seconds cfg \<le> 0
              then [get_batch_key s opn, get_batch_key s opn, get_batch_key s opn,
                    get_batch_key s opn, get_batch_key s opn]
              else [get_batch_key s opn, get_batch_key s opn, get_batch_key s opn])
             [] Map.empty 5 []"
proof -
  let ?k = "get_batch_key s opn"
  let ?fires = "batch_strategy cfg \<in> {TIME_BASED, HYBRID_BATCH} \<and> max_wait_time_seconds cfg \<le> 0"
  let ?r1 = "queued s opn t p 0 rid1 d1"
  let ?r2 = "queued s opn t p 1 rid2 d2"
  let ?r3 = "queued s opn t p 2 rid3 d3"
  let ?r4 = "queued s opn t p 3 rid4 d4"
  let ?r5 = "queued s opn t p 4 rid5 d5"
  let ?W = "t + max 0 (max_wait_time_seconds cfg)"
  have act: "0 < max_concurrent_batches cfg" using mcb by simp
  have s1: "add_request cfg rid1 s opn d1 p (RequestBatcher_init t)
      = (0, bstate ?k t [?r1] (if ?fires then [] else [(?k, ?W)]) 0 (if ?fires then [?k] else [])
              [] Map.empty 1 [])"
    using mbs by (simp add: add_request_first should_process_bstate[OF act])
  have s2: "add_request cfg rid2 s opn d2 p
        (bstate ?k t [?r1] (if ?fires then [] else [(?k, ?W)]) 0 (if ?fires then [?k] else []) [] Map.empty 1 [])
      = (Suc 0, bstate ?k t [?r1, ?r2] (if ?fires then [] else [(?k, ?W)]) 0 (if ?fires then [?k, ?k] else [])
              [] Map.empty 2 [])"
    using mbs by (simp add: add_request_next should_process_bstate[OF act] od_del_def eval_nat_numeral)
  have s3: "add_request cfg rid3 s opn d3 p
        (bstate ?k t [?r1, ?r2] (if ?fires then [] else [(?k, ?W)]) 0 (if ?fires then [?k, ?k] else []) [] Map.empty 2 [])
      = (2, bstate ?k t [?r1, ?r2, ?r3] [] 0 (if ?fires then [?k, ?k, ?k] else [?k])
              [] Map.empty 3 [])"
    using mbs by (simp add: add_request_next should_process_bstate[OF act] od_del_def eval_nat_numeral)
  have s4: "add_request cfg rid4 s opn d4 p
        (bstate ?k t [?r1, ?r2, ?r3] [] 0 (if ?fires then [?k, ?k, ?k] else [?k]) [] Map.empty 3 [])
      = (3, bstate ?k t [?r1, ?r2, ?r3, ?r4] [] 0 (if ?fires then [?k, ?k, ?k, ?k] else [?k, ?k])
              [] Map.empty 4 [])"
    using mbs by (simp add: add_request_next should_process_bstate[OF act] od_del_def eval_nat_numeral)
  have s5: "add_request cfg rid5 s opn d5 p
        (bstate ?k t [?r1, ?r2, ?r3, ?r4] [] 0 (if ?fires then [?k, ?k, ?k, ?k] else [?k, ?k]) [] Map.empty 4 [])
      = (4, bstate ?k t [?r1, ?r2, ?r3, ?r4, ?r5] [] 0
              (if ?fires then [?k, ?k, ?k, ?k, ?k] else [?k, ?k, ?k])
              [] Map.empty 5 [])"
    using mbs by (simp add: add_request_next should_process_bstate[OF act] od_del_def eval_nat_numeral)
  show ?thesis
    by (simp only: submit_all.simps s1 s2 s3 s4 s5 snd_conv)
qed


lemma step_spawned:
  "step cfg (bstate k t q T a (k' # S) F U n L)
     = Some (process_batch_begin cfg k' (bstate k t q T a S F U n L))"
  by (simp add: step_def bstate_def)

lemma begin_three:
  assumes "max_batch_size cfg = 3" and "q \<noteq> []"
  shows "process_batch_begin cfg k (bstate k t q T a S F U n L)
           = bstate k t (drop 3 q) T (a + 1) S (F @ [(k, take 3 q, t)]) U n (L @ [take 3 q])"
proof -
  from assms(2) obtain r rs where q: "q = r # rs" by (cases q) auto
  show ?thesis
    unfolding q using assms(1)
    by (simp add: process_batch_begin_def bstate_def py_take_def py_drop_def Let_def)
qed

lemma begin_empty:
  "process_batch_begin cfg k (bstate k t [] T a S F U n L) = bstate k t [] T a S F U n L"
  by (simp add: process_batch_begin_def bstate_def)

lemma finish_empty_queue:
  "process_batch_finish cfg (k, requests, started) (bstate k t [] T a S F U n L)
     = bstate k t [] T (a - 1) S F (set_futures (zip requests (execute_batch started requests)) U) n L"
  by (simp add: process_batch_finish_def process_batch_finally_def bstate_def Let_def)

lemma step_finish_second:
  assumes "finish_time g2 < finish_time g1"
  shows "step cfg (bstate k t q [] a [] [g1, g2] U n L)
           = Some (process_batch_finish cfg g2
                     (bstate k (max t (finish_time g2)) q [] a [] [g1] U n L))"
  using assms
  by (cases g2) (auto simp add: step_def bstate_def timed_events_def)

lemma step_finish_last:
  "step cfg (bstate k t q [] a [] [g1] U n L)
     = Some (process_batch_finish cfg g1 (bstate k (max t (finish_time g1)) q [] a [] [] U n L))"
  by (cases g1) (simp add: step_def bstate_def timed_events_def)

lemma step_idle: "step cfg (bstate k t q [] a [] [] U n L) = None"
  by (simp add: step_def bstate_def timed_events_def)


lemma run_five:
  assumes mbs: "max_batch_size cfg = 3"
    and ks: "ks = [] \<or> ks = [k, k]"
  shows "run_loop 7 cfg (bstate k t [r1, r2, r3, r4, r5] [] 0 (k # k # k # ks) [] U n [])
           = bstate k (t + 3 / 10) [] [] 0 [] []
               (set_futures (zip [r1, r2, r3] (execute_batch t [r1, r2, r3]))
                  (set_futures (zip [r4, r5] (execute_batch t [r4, r5])) U))
               n [[r1, r2, r3], [r4, r5]]"
proof -
  let ?g1 = "(k, [r1, r2, r3], t)" and ?g2 = "(k, [r4, r5], t)"
  let ?L = "[[r1, r2, r3], [r4, r5]]"
  let ?U1 = "set_futures (zip [r4, r5] (execute_batch t [r4, r5])) U"
  let ?U2 = "set_futures (zip [r1, r2, r3] (execute_batch t [r1, r2, r3])) ?U1"
  have b1: "step cfg (bstate k t [r1, r2, r3, r4, r5] [] 0 (k # k # k # ks) [] U n [])
              = Some (bstate k t [r4, r5] [] 1 (k # k # ks) [?g1] U n [[r1, r2, r3]])"
    using mbs by (simp add: step_spawned begin_three)
  have b2: "step cfg (bstate k t [r4, r5] [] 1 (k # k # ks) [?g1] U n [[r1, r2, r3]])
              = Some (bstate k t [] [] 2 (k # ks) [?g1, ?g2] U n ?L)"
    using mbs by (simp add: step_spawned begin_three)
  have b3: "step cfg (bstate k t [] [] 2 (k # ks) [?g1, ?g2] U n ?L)
              = Some (bstate k t [] [] 2 ks [?g1, ?g2] U n ?L)"
    by (simp add: step_spawned begin_empty)
  have f1: "step cfg (bstate k t [] [] 2 [] [?g1, ?g2] U n ?L)
              = Some (bstate k (t + 1 / 5) [] [] 1 [] [?g1] ?U1 n ?L)"
    by (simp add: step_finish_second finish_time_def finish_empty_queue max_def)
  have f2: "step cfg (bstate k (t + 1 / 5) [] [] 1 [] [?g1] ?U1 n ?L)
              = Some (bstate k (t + 3 / 10) [] [] 0 [] [] ?U2 n ?L)"
    by (simp add: step_finish_last finish_time_def finish_empty_queue max_def)
  have idle: "step cfg (bstate k (t + 3 / 10) [] [] 0 [] [] ?U2 n ?L) = None"
    by (rule step_idle)
  have tail: "run_loop (Suc (Suc m)) cfg (bstate k t [] [] 2 [] [?g1, ?g2] U n ?L)
                = bstate k (t + 3 / 10) [] [] 0 [] [] ?U2 n ?L" for m
    using f1 f2 idle by (simp add: run_loop_quiescent)
  from ks show ?thesis
  proof
    assume "ks = []"
    then show ?thesis
      using b1 b2 b3 tail[of 2] by (simp add: eval_nat_numeral)
  next
    assume ks2: "ks = [k, k]"
    have b4: "step cfg (bstate k t [] [] 2 [k, k] [?g1, ?g2] U n ?L)
                = Some (bstate k t [] [] 2 [k] [?g1, ?g2] U n ?L)"
      by (simp add: step_spawned begin_empty)
    have b5: "step cfg (bstate k t [] [] 2 [k] [?g1, ?g2] U n ?L)
                = Some (bstate k t [] [] 2 [] [?g1, ?g2] U n ?L)"
      by (simp add: step_spawned begin_empty)
    show ?thesis
      using b1 b2 b3 b4 b5 tail[of 0] ks2 by (simp add: eval_nat_numeral)
  qed
qed


text \<open>
  Claim C9. With \<open>max_batch_size = 3\<close> (and at least one concurrent batch allowed), five
  requests of equal priority submitted back to back for one service and operation, to a
  fresh batcher: once the loop has run (seven steps, or any number beyond), exactly two
  groups were dispatched, the first three requests and then the last two, in submission
  order; each request's future holds the result built for that very request (its id and
  data, the size of its group); the queue is empty and the loop has nothing left to run.
  This holds for every strategy, wait time and priority setting.
\<close>

theorem five_requests_dispatch_as_three_and_two:
  assumes "max_batch_size cfg = 3" and "1 \<le> max_concurrent_batches cfg"
  shows "(let b = run_loop (7 + extra) cfg
                   (submit_all cfg
                      [(rid1, s, opn, d1, p), (rid2, s, opn, d2, p), (rid3, s, opn, d3, p),
                       (rid4, s, opn, d4, p), (rid5, s, opn, d5, p)]
                      (RequestBatcher_init t))
          in batch_log b =
               [[queued s opn t p 0 rid1 d1, queued s opn t p 1 rid2 d2, queued s opn t p 2 rid3 d3],
                [queued s opn t p 3 rid4 d4, queued s opn t p 4 rid5 d5]]
             \<and> futures b 0 = Some (Inr \<lparr>res_request_id = rid1, processed_at = t + 0.1,
                                          batch_size = 3, res_data = d1\<rparr>)
             \<and> futures b 1 = Some (Inr \<lparr>res_request_id = rid2, processed_at = t + 0.2,
                                          batch_size = 3, res_data = d2\<rparr>)
             \<and> futures b 2 = Some (Inr \<lparr>res_request_id = rid3, processed_at = t + 0.3,
                                          batch_size = 3, res_data = d3\<rparr>)
             \<and> futures b 3 = Some (Inr \<lparr>res_request_id = rid4, processed_at = t + 0.1,
                                          batch_size = 2, res_data = d4\<rparr>)
             \<and> futures b 4 = Some (Inr \<lparr>res_request_id = rid5, processed_at = t + 0.2,
                                          batch_size = 2, res_data = d5\<rparr>)
             \<and> pending_requests b (get_batch_key s opn) = Some []
             \<and> step cfg b = None)"
proof -
  let ?k = "get_batch_key s opn"
  let ?r1 = "queued s opn t p 0 rid1 d1"
  let ?r2 = "queued s opn t p 1 rid2 d2"
  let ?r3 = "queued s opn t p 2 rid3 d3"
  let ?r4 = "queued s opn t p 3 rid4 d4"
  let ?r5 = "queued s opn t p 4 rid5 d5"
  let ?U = "set_futures (zip [?r1, ?r2, ?r3] (execute_batch t [?r1, ?r2, ?r3]))
              (set_futures (zip [?r4, ?r5] (execute_batch t [?r4, ?r5])) Map.empty)"
  let ?final = "bstate ?k (t + 3 / 10) [] [] 0 [] [] ?U 5 [[?r1, ?r2, ?r3], [?r4, ?r5]]"
  let ?b5 = "submit_all cfg
               [(rid1, s, opn, d1, p), (rid2, s, opn, d2, p), (rid3, s, opn, d3, p),
                (rid4, s, opn, d4, p), (rid5, s, opn, d5, p)] (RequestBatcher_init t)"
  have seven: "run_loop 7 cfg ?b5 = ?final"
  proof (cases "batch_strategy cfg \<in> {TIME_BASED, HYBRID_BATCH} \<and> max_wait_time_seconds cfg \<le> 0")
    case True
    then have "?b5 = bstate ?k t [?r1, ?r2, ?r3, ?r4, ?r5] [] 0 (?k # ?k # ?k # [?k, ?k]) [] Map.empty 5 []"
      unfolding submit_five[OF assms] using True by simp
    then show ?thesis using run_five[OF assms(1), of "[?k, ?k]" ?k] by simp
  next
    case False
    then have "?b5 = bstate ?k t [?r1, ?r2, ?r3, ?r4, ?r5] [] 0 (?k # ?k # ?k # []) [] Map.empty 5 []"
      unfolding submit_five[OF assms] using False by auto
    then show ?thesis using run_five[OF assms(1), of "[]" ?k] by simp
  qed
  have idle: "step cfg ?final = None" by (rule step_idle)
  have all: "run_loop (7 + extra) cfg ?b5 = ?final"
    by (simp only: run_loop_add seven run_loop_quiescent[OF idle])
  have log: "batch_log ?final = [[?r1, ?r2, ?r3], [?r4, ?r5]]"
    and pend: "pending_requests ?final ?k = Some []"
    by (simp_all add: bstate_def)
  have futs: "futures ?final = ?U" by (simp add: bstate_def)
  have u0: "?U 0 = Some (Inr \<lparr>res_request_id = rid1, processed_at = t + 0.1, batch_size = 3, res_data = d1\<rparr>)"
    and u1: "?U 1 = Some (Inr \<lparr>res_request_id = rid2, processed_at = t + 0.2, batch_size = 3, res_data = d2\<rparr>)"
    and u2: "?U 2 = Some (Inr \<lparr>res_request_id = rid3, processed_at = t + 0.3, batch_size = 3, res_data = d3\<rparr>)"
    and u3: "?U 3 = Some (Inr \<lparr>res_request_id = rid4, processed_at = t + 0.1, batch_size = 2, res_data = d4\<rparr>)"
    and u4: "?U 4 = Some (Inr \<lparr>res_request_id = rid5, processed_at = t + 0.2, batch_size = 2, res_data = d5\<rparr>)"
    by (simp_all add: set_futures_def execute_batch_def)
  show ?thesis
    unfolding Let_def all futs
    using log pend idle u0 u1 u2 u3 u4 by (simp only: futs simp_thms)
qed

theorem five_requests_dispatch_as_three_and_two_witness:
  "max_batch_size (BatchConfig_default\<lparr>max_batch_size := 3\<rparr>) = 3
   \<and> 1 \<le> max_concurrent_batches (BatchConfig_default\<lparr>max_batch_size := 3\<rparr>)
   \<and> (let b = run_loop (7 + 0) (BatchConfig_default\<lparr>max_batch_size := 3\<rparr>)
                   (submit_all (BatchConfig_default\<lparr>max_batch_size := 3\<rparr>)
                      [(''r1'', ''vertex_ai'', ''predict'', 10 :: nat, 0), (''r2'', ''vertex_ai'', ''predict'', 20, 0),
                       (''r3'', ''vertex_ai'', ''predict'', 30, 0), (''r4'', ''vertex_ai'', ''predict'', 40, 0),
                       (''r5'', ''vertex_ai'', ''predict'', 50, 0)]
                      (RequestBatcher_init 0))
          in batch_log b =
               [[queued ''vertex_ai'' ''predict'' 0 0 0 ''r1'' 10, queued ''vertex_ai'' ''predict'' 0 0 1 ''r2'' 20,
                 queued ''vertex_ai'' ''predict'' 0 0 2 ''r3'' 30],
                [queued ''vertex_ai'' ''predict'' 0 0 3 ''r4'' 40, queued ''vertex_ai'' ''predict'' 0 0 4 ''r5'' 50]]
             \<and> futures b 0 = Some (Inr \<lparr>res_request_id = ''r1'', processed_at = 0 + 0.1,
                                          batch_size = 3, res_data = 10\<rparr>)
             \<and> futures b 1 = Some (Inr \<lparr>res_request_id = ''r2'', processed_at = 0 + 0.2,
                                          batch_size = 3, res_data = 20\<rparr>)
             \<and> futures b 2 = Some (Inr \<lparr>res_request_id = ''r3'', processed_at = 0 + 0.3,
                                          batch_size = 3, res_data = 30\<rparr>)
             \<and> futures b 3 = Some (Inr \<lparr>res_request_id = ''r4'', processed_at = 0 + 0.1,
                                          batch_size = 2, res_data = 40\<rparr>)
             \<and> futures b 4 = Some (Inr \<lparr>res_request_id = ''r5'', processed_at = 0 + 0.2,
                                          batch_size = 2, res_data = 50\<rparr>)
             \<and> pending_requests b (get_batch_key ''vertex_ai'' ''predict'') = Some []
             \<and> step (BatchConfig_default\<lparr>max_batch_size := 3\<rparr>) b = None)"
proof -
  have h1: "max_batch_size (BatchConfig_default\<lparr>max_batch_size := 3\<rparr>) = 3" by simp
  have h2: "1 \<le> max_concurrent_batches (BatchConfig_default\<lparr>max_batch_size := 3\<rparr>)"
    by (simp add: BatchConfig_default_def)
  show ?thesis
    by (intro conjI h1 h2 five_requests_dispatch_as_three_and_two[OF h1 h2])
qed

section \<open>Gateway: construction\<close>

lemma constructor_raises:
  "ADKServiceManager_init t = (Some (OtherException ''AttributeError''), vertex_ai_manager t)"
  by (simp add: ADKServiceManager_init_def SERVICE_CONFIGS_def vertex_ai_manager_def
        set_alert_threshold_str_def ADKMonitor_init_def)

section \<open>Gateway: a call while the breaker is OPEN\<close>

text \<open>
  Claim C2. A manager that serves vertex\_ai; the operation behind the service is never
  available. The first protected call makes its three attempts and the third failure opens
  the breaker. The second call, made at once, is refused by the open breaker without the
  operation being invoked, but \<open>RetryHandler\<close> catches the \<open>CircuitBreakerOpenError\<close> like
  any other failure: the caller receives \<open>RetryExhaustedError\<close>, the error statistics of
  the service count it under "unknown" exactly as they counted the first call's failure,
  and the branch of \<open>_execute_with_protection\<close> that records a circuit-breaker trip is never
  taken.
\<close>

theorem open_breaker_reaches_caller_as_retries_exhausted:
  "(case mgr_execute_with_protection (vertex_ai_manager 0 :: (unit, 'd) ADKServiceManager)
            ''vertex_ai'' ''optimize_portfolio'' (invoke unavailable) rnd \<lparr>now = 0, calls = 0\<rparr> of
      (r1, m1, w1) \<Rightarrow>
        (case mgr_execute_with_protection m1 ''vertex_ai'' ''optimize_portfolio''
                (invoke unavailable) rnd w1 of
           (r2, m2, w2) \<Rightarrow>
             r1 = Inl (RetryExhaustedError (Some ServiceUnavailable))
             \<and> calls w1 = 3
             \<and> map_option (\<lambda>cb. state (cb_status cb)) (circuit_breakers (error_handler m1) ''vertex_ai'') = Some OPEN
             \<and> r2 = Inl (RetryExhaustedError (Some CircuitBreakerOpenError))
             \<and> w2 = w1
             \<and> map_option (\<lambda>f. f UNKNOWN) (error_stats (error_handler m1) ''vertex_ai'') = Some 1
             \<and> map_option (\<lambda>f. f UNKNOWN) (error_stats (error_handler m2) ''vertex_ai'') = Some 2
             \<and> circuit_breaker_trips (performance_stats (monitor m2) ''vertex_ai'' ''optimize_portfolio'') = 0))"
  by (simp add: mgr_execute_with_protection_def vertex_ai_manager_def vertex_ai_retry_def
        vertex_ai_breaker_def ADKErrorHandler_init_def configure_service_def
        RetryConfig_default_def CircuitBreakerConfig_default_def CircuitBreakerStatus_init_def
        execute_with_protection_def execute_with_retry_def retry_loop.simps[of _ _ _ 0]
        retry_loop.simps[of _ _ _ "Suc 0"] retry_loop.simps[of _ _ _ "Suc (Suc 0)"]
        execution_func_def call_def check_state_def on_failure_def on_success_def invoke_def
        unavailable_def is_retryable_def record_error_def sleep_def ADKMonitor_init_def
        PerformanceStats_init_def Let_def)

section \<open>Gateway: a call with batching enabled\<close>

lemma batched_call_ignores_operation:
  "mgr_execute_with_batching_and_caching m serialized_len fuel service_name operation digest rid
       d func True enable_caching prio rnd_cache rnd w
   = mgr_execute_with_batching_and_caching m serialized_len fuel service_name operation digest rid
       d func' True enable_caching prio rnd_cache rnd' w"
  unfolding mgr_execute_with_batching_and_caching_def if_True ..

text \<open>
  Claim C1. A manager that serves vertex\_ai, caching disabled, and an operation behind
  the service that raises \<open>Unauthenticated\<close> whenever it is invoked. With batching enabled the
  call returns, 1.1 s later, the dictionary that \<open>RequestBatcher._execute_batch\<close> builds from
  the request data; the operation has not been invoked and the error handler (retry
  configurations, circuit breakers, error statistics) is untouched: \<open>protected_func\<close> is
  defined and never handed to the batcher. The same call with batching disabled goes
  through \<open>_execute_with_protection\<close>: the operation is invoked once and the call fails.
\<close>

theorem batched_call_never_runs_the_operation:
  "(case mgr_execute_with_batching_and_caching
           (vertex_ai_manager 0 :: (unit, 'd) ADKServiceManager) serialized_len (Suc (Suc (Suc fuel)))
           ''vertex_ai'' ''calculate_credit_score'' digest rid d (invoke always_unauthenticated)
           True False prio rnd_cache rnd \<lparr>now = 0, calls = 0\<rparr> of
      None \<Rightarrow> False
    | Some (r, m, w) \<Rightarrow>
        r = Inr (Batched \<lparr>res_request_id = rid, processed_at = 1.1, batch_size = 1, res_data = d\<rparr>)
        \<and> calls w = 0
        \<and> error_handler m = error_handler (vertex_ai_manager 0 :: (unit, 'd) ADKServiceManager))
   \<and> (case mgr_execute_with_batching_and_caching
           (vertex_ai_manager 0 :: (unit, 'd) ADKServiceManager) serialized_len (Suc (Suc (Suc fuel)))
           ''vertex_ai'' ''calculate_credit_score'' digest rid d (invoke always_unauthenticated)
           False False prio rnd_cache rnd \<lparr>now = 0, calls = 0\<rparr> of
      None \<Rightarrow> False
    | Some (r, m, w) \<Rightarrow>
        r = Inl (RetryExhaustedError (Some Unauthenticated)) \<and> calls w = 1)"
proof -
  let ?m0 = "vertex_ai_manager 0 :: (unit, 'd) ADKServiceManager"
  let ?k = "get_batch_key ''vertex_ai'' ''calculate_credit_score''"
  let ?res = "\<lparr>res_request_id = rid, processed_at = 1.1, batch_size = 1, res_data = d\<rparr>"
  define req :: "'d BatchRequest" where
    "req = \<lparr>br_request_id = rid, br_service_name = ''vertex_ai'', br_operation = ''calculate_credit_score'',
            br_data = d, future = 0, br_created_at = 0, priority = prio\<rparr>"
  define b1 :: "'d RequestBatcher" where
    "b1 = \<lparr>pending_requests = [?k \<mapsto> [req]], batch_timers = [(?k, 1)],
           active_batches = [?k \<mapsto> 0], loop_time = 0, spawned = [], in_flight = [],
           futures = Map.empty, next_future = 1, batch_log = []\<rparr>"
  define b2 where "b2 = b1\<lparr>loop_time := 1, batch_timers := [], spawned := [?k]\<rparr>"
  define b3 where
    "b3 = b2\<lparr>spawned := [], pending_requests := [?k \<mapsto> []], active_batches := [?k \<mapsto> 1],
              in_flight := [(?k, [req], 1)], batch_log := [[req]]\<rparr>"
  define b4 where
    "b4 = b3\<lparr>loop_time := 1.1, active_batches := [?k \<mapsto> 0], in_flight := [],
              futures := [0 \<mapsto> Inr ?res]\<rparr>"
  have lg: "''vertex_ai'' \<in> set (service_loggers ?m0)"
    by (simp add: vertex_ai_manager_def)
  have bc: "batch_config ?m0 = get_default_batch_config" and bt: "batcher ?m0 = RequestBatcher_init 0"
    by (simp_all add: vertex_ai_manager_def)
  have add: "add_request get_default_batch_config rid ''vertex_ai'' ''calculate_credit_score'' d prio
               ((RequestBatcher_init 0)\<lparr>loop_time := 0\<rparr>) = (0, b1)"
    by (simp add: add_request_def RequestBatcher_init_def get_default_batch_config_def
          should_process_batch_def Let_def b1_def req_def)
  have st1: "step get_default_batch_config b1 = Some b2"
    by (simp add: step_def timed_events_def batch_timer_def od_del_def b1_def b2_def)
  have st2: "step get_default_batch_config b2 = Some b3"
    by (simp add: step_def process_batch_begin_def get_default_batch_config_def py_take_def
          py_drop_def Let_def b1_def b2_def b3_def)
  have st3: "step get_default_batch_config b3 = Some b4"
    by (simp add: step_def timed_events_def finish_time_def process_batch_finish_def
          process_batch_finally_def execute_batch_def set_futures_def Let_def
          b1_def b2_def b3_def b4_def req_def)
  have pending: "futures b1 0 = None" "futures b2 0 = None" "futures b3 0 = None"
    and settled: "futures b4 0 = Some (Inr ?res)"
    by (simp_all add: b1_def b2_def b3_def b4_def)
  have aw: "await_future (Suc (Suc (Suc fuel))) get_default_batch_config 0 b1 = Some (Inr ?res, b4)"
    by (cases fuel) (simp_all add: st1 st2 st3 pending settled)
  have lt: "loop_time b4 = 1.1" by (simp add: b4_def)
  have batched: "mgr_execute_with_batching_and_caching ?m0 serialized_len (Suc (Suc (Suc fuel)))
           ''vertex_ai'' ''calculate_credit_score'' digest rid d (invoke always_unauthenticated)
           True False prio rnd_cache rnd \<lparr>now = 0, calls = 0\<rparr>
       = Some (Inr (Batched ?res), ?m0\<lparr>batcher := b4\<rparr>, \<lparr>now = 1.1, calls = 0\<rparr>)"
    unfolding mgr_execute_with_batching_and_caching_def
    by (simp add: lg bc bt add aw lt del: await_future.simps)
  have direct: "\<exists>h. mgr_execute_with_protection ?m0 ''vertex_ai'' ''calculate_credit_score''
                  (invoke always_unauthenticated) rnd \<lparr>now = 0, calls = 0\<rparr>
       = (Inl (RetryExhaustedError (Some Unauthenticated)),
          ?m0\<lparr>error_handler := h\<rparr>, \<lparr>now = 0, calls = 1\<rparr>)"
    by (simp add: mgr_execute_with_protection_def vertex_ai_manager_def vertex_ai_retry_def
        vertex_ai_breaker_def ADKErrorHandler_init_def configure_service_def
        RetryConfig_default_def CircuitBreakerConfig_default_def CircuitBreakerStatus_init_def
        execute_with_protection_def execute_with_retry_def retry_loop.simps[of _ _ _ 0]
        execution_func_def call_def check_state_def on_failure_def on_success_def invoke_def
        always_unauthenticated_def is_retryable_def record_error_def Let_def)
  then obtain h where dir: "mgr_execute_with_protection ?m0 ''vertex_ai'' ''calculate_credit_score''
                  (invoke always_unauthenticated) rnd \<lparr>now = 0, calls = 0\<rparr>
       = (Inl (RetryExhaustedError (Some Unauthenticated)),
          ?m0\<lparr>error_handler := h\<rparr>, \<lparr>now = 0, calls = 1\<rparr>)" ..
  have unbatched: "mgr_execute_with_batching_and_caching ?m0 serialized_len (Suc (Suc (Suc fuel)))
           ''vertex_ai'' ''calculate_credit_score'' digest rid d (invoke always_unauthenticated)
           False False prio rnd_cache rnd \<lparr>now = 0, calls = 0\<rparr>
       = Some (Inl (RetryExhaustedError (Some Unauthenticated)),
               ?m0\<lparr>error_handler := h\<rparr>, \<lparr>now = 0, calls = 1\<rparr>)"
    unfolding mgr_execute_with_batching_and_caching_def
    by (simp add: lg dir del: await_future.simps)
  show ?thesis
    unfolding batched unbatched by simp
qed

end
